theory Spec2Isabelle
  imports Main
begin

section \<open>JavaScript values\<close>

text \<open>
  The server is dynamically typed: a webhook payload is whatever \<^verbatim>\<open>JSON.parse\<close> returned,
  and every field read may meet a missing property or a value of another type. The
  values are therefore modelled as they are at run time. \<open>JNum n\<close> is the double whose
  value is the integer \<open>n\<close>, meant for the safe range \<open>\<bar>n\<bar> < 2 ^ 53\<close> (amounts are integers
  in minor units); doubles with a fraction are outside this model. Strings are byte
  strings; JavaScript's UTF-16 view differs only on non-ASCII text.
\<close>

datatype jsval =
    JUndefined
  | JNull
  | JBool bool
  | JNum int
  | JStr string
  | JArr "jsval list"
  | JObj "(string \<times> jsval) list"

text \<open>
  A thrown value. Every value this program throws or catches is an \<^verbatim>\<open>Error\<close> object; only
  its \<^verbatim>\<open>message\<close> is ever read. The text of a \<open>TypeError\<close> is the engine's (V8's here); no
  result below depends on it.
\<close>

datatype error = TypeError string | SyntaxError string | ServiceError string

fun err_message :: "error \<Rightarrow> string" where
  "err_message (TypeError m) = m"
| "err_message (SyntaxError m) = m"
| "err_message (ServiceError m) = m"

text \<open>Sequencing of computations that may throw: the first \<open>Inl\<close> wins.\<close>

definition bindE :: "error + 'a \<Rightarrow> ('a \<Rightarrow> error + 'b) \<Rightarrow> error + 'b" where
  "bindE r f = (case r of Inl e \<Rightarrow> Inl e | Inr x \<Rightarrow> f x)"

definition nullish :: "jsval \<Rightarrow> bool" where
  "nullish v = (v = JUndefined \<or> v = JNull)"

text \<open>Truthiness, as used by \<^verbatim>\<open>||\<close> and \<^verbatim>\<open>!!\<close>.\<close>

fun truthy :: "jsval \<Rightarrow> bool" where
  "truthy JUndefined = False"
| "truthy JNull = False"
| "truthy (JBool b) = b"
| "truthy (JNum n) = (n \<noteq> 0)"
| "truthy (JStr s) = (s \<noteq> [])"
| "truthy (JArr xs) = True"
| "truthy (JObj kvs) = True"

definition or_else :: "jsval \<Rightarrow> jsval \<Rightarrow> jsval" where
  "or_else v d = (if truthy v then v else d)"

text \<open>
  \<^verbatim>\<open>v.k\<close> for the identifiers this program reads (none of them is a property of a built-in
  prototype): a \<open>TypeError\<close> on \<^verbatim>\<open>undefined\<close> and \<^verbatim>\<open>null\<close>, the own property of an object,
  \<^verbatim>\<open>undefined\<close> on everything else.
\<close>

definition cannot_read :: "string \<Rightarrow> string \<Rightarrow> error" where
  "cannot_read what k =
     TypeError (''Cannot read properties of '' @ what @ '' (reading '' @ [CHR 0x27] @ k @ [CHR 0x27] @ '')'')"

fun get_prop :: "jsval \<Rightarrow> string \<Rightarrow> error + jsval" where
  "get_prop JUndefined k = Inl (cannot_read ''undefined'' k)"
| "get_prop JNull k = Inl (cannot_read ''null'' k)"
| "get_prop (JObj kvs) k = Inr (case map_of kvs k of None \<Rightarrow> JUndefined | Some v \<Rightarrow> v)"
| "get_prop v k = Inr JUndefined"

text \<open>\<^verbatim>\<open>v?.k\<close>: optional chaining short-circuits on \<^verbatim>\<open>undefined\<close> and \<^verbatim>\<open>null\<close>.\<close>

definition opt_prop :: "jsval \<Rightarrow> string \<Rightarrow> error + jsval" where
  "opt_prop v k = (if nullish v then Inr JUndefined else get_prop v k)"

text \<open>\<^verbatim>\<open>v[0]\<close>.\<close>

fun index0 :: "jsval \<Rightarrow> error + jsval" where
  "index0 JUndefined = Inl (cannot_read ''undefined'' ''0'')"
| "index0 JNull = Inl (cannot_read ''null'' ''0'')"
| "index0 (JArr xs) = Inr (case xs of [] \<Rightarrow> JUndefined | x # _ \<Rightarrow> x)"
| "index0 (JObj kvs) = Inr (case map_of kvs ''0'' of None \<Rightarrow> JUndefined | Some v \<Rightarrow> v)"
| "index0 (JStr s) = Inr (case s of [] \<Rightarrow> JUndefined | c # _ \<Rightarrow> JStr [c])"
| "index0 v = Inr JUndefined"

subsection \<open>Numbers as text\<close>

definition digit_char :: "nat \<Rightarrow> char" where
  "digit_char d = ''0123456789'' ! d"

function nat_str :: "nat \<Rightarrow> string" where
  "nat_str n = (if n < 10 then [digit_char n] else nat_str (n div 10) @ [digit_char (n mod 10)])"
  by pat_completeness auto
termination
  by (relation "measure id") auto

declare nat_str.simps [simp del]

text \<open>\<^verbatim>\<open>Number::toString\<close> of an integer-valued double below \<open>10 ^ 21\<close> in magnitude.\<close>

definition int_str :: "int \<Rightarrow> string" where
  "int_str n = (if n < 0 then ''-'' @ nat_str (nat (- n)) else nat_str (nat n))"

subsection \<open>ToString\<close>

text \<open>
  \<^verbatim>\<open>ToString\<close>, as a template literal applies it. A parsed object has no callable own
  property, so an own \<^verbatim>\<open>toString\<close> key makes \<^verbatim>\<open>OrdinaryToPrimitive\<close> fail; otherwise
  \<^verbatim>\<open>Object.prototype.toString\<close> answers. An array is joined with commas, \<^verbatim>\<open>undefined\<close> and
  \<^verbatim>\<open>null\<close> elements giving the empty string.
\<close>

fun to_string :: "jsval \<Rightarrow> error + string"
  and join_elems :: "jsval list \<Rightarrow> error + string" where
  "to_string JUndefined = Inr ''undefined''"
| "to_string JNull = Inr ''null''"
| "to_string (JBool b) = Inr (if b then ''true'' else ''false'')"
| "to_string (JNum n) = Inr (int_str n)"
| "to_string (JStr s) = Inr s"
| "to_string (JArr xs) = join_elems xs"
| "to_string (JObj kvs) =
     (if ''toString'' \<in> fst ` set kvs then Inl (TypeError ''Cannot convert object to primitive value'')
      else Inr ''[object Object]'')"
| "join_elems [] = Inr []"
| "join_elems (x # xs) =
     (case (if nullish x then Inr [] else to_string x) of
        Inl e \<Rightarrow> Inl e
      | Inr s \<Rightarrow>
          (if xs = [] then Inr s
           else (case join_elems xs of Inl e \<Rightarrow> Inl e | Inr t \<Rightarrow> Inr (s @ '','' @ t))))"

subsection \<open>Dividing an amount by 100 and \<^verbatim>\<open>toFixed(2)\<close>\<close>

text \<open>
  \<^verbatim>\<open>amount / 100\<close> is an IEEE 754 binary64 division, and \<open>a / 100\<close> is almost never a
  double. A finite double is written here as a fraction \<open>(m, d)\<close>, meaning \<open>m / d\<close>, whose
  denominator is a power of two. For an integer \<open>a > 0\<close> below \<open>100 * 2 ^ 52\<close> the quotient
  is a normal double: \<open>scale\<close> doubles numerator and denominator until the significand
  has 53 bits, and \<open>double_div100\<close> rounds it to nearest, ties to even.
\<close>

function scale :: "int \<Rightarrow> int \<Rightarrow> int \<times> int" where
  "scale p d = (if 0 < p \<and> p < 100 * 2 ^ 52 then scale (2 * p) (2 * d) else (p, d))"
  by pat_completeness auto
termination
  by (relation "measure (\<lambda>(p, d). nat (100 * 2 ^ 52 - p))") auto

declare scale.simps [simp del]

definition round_even :: "int \<Rightarrow> int \<Rightarrow> int" where
  "round_even p d =
     (let q = p div d; r = p mod d
      in if 2 * r < d then q else if d < 2 * r then q + 1 else if even q then q else q + 1)"

definition double_div100 :: "int \<Rightarrow> int \<times> int" where
  "double_div100 a = (case scale a 1 of (p, d) \<Rightarrow> (round_even p 100, d))"

text \<open>
  \<^verbatim>\<open>Number.prototype.toFixed(2)\<close> on the double \<open>x = m / d\<close>, \<open>0 \<le> x < 10 ^ 21\<close>: take the
  integer \<open>n\<close> for which \<open>n / 100 - x\<close> is closest to zero, the larger one on a tie; write
  its digits, pad with zeros to three characters, and put the point before the last two.
\<close>

definition toFixed2 :: "int \<times> int \<Rightarrow> string" where
  "toFixed2 x =
     (case x of (m, d) \<Rightarrow>
        let n = (200 * m + d) div (2 * d);
            s = nat_str (nat n);
            z = replicate (3 - length s) (CHR ''0'') @ s
        in take (length z - 2) z @ ''.'' @ drop (length z - 2) z)"

text \<open>\<^verbatim>\<open>(n / 100).toFixed(2)\<close> for an integer \<open>n\<close>: the sign is written first, then the magnitude.\<close>

definition int_div100_toFixed2 :: "int \<Rightarrow> string" where
  "int_div100_toFixed2 n =
     (if n < 0 then ''-'' @ toFixed2 (double_div100 (- n)) else toFixed2 (double_div100 n))"

section \<open>The process and its collaborators\<close>

text \<open>
  Everything the server reads from outside is a field of \<open>world\<close>: the environment
  variables, the clock, and the outcome of each library or service call, \<open>Inl\<close> being a
  thrown exception or a rejected promise. \<open>string_div100_toFixed2\<close> is
  \<^verbatim>\<open>(s / 100).toFixed(2)\<close> for a string \<open>s\<close> (\<^verbatim>\<open>StringToNumber\<close>, then the division), which
  this development leaves open. The model begins once the module is loaded: that the
  three clients of lines 1 to 25 were created is assumed, not shown.
\<close>

record world =
  PORT :: "string option"
  STRIPE_SECRET_KEY :: "string option"
  OPENAI_API_KEY :: "string option"
  ALERT_EMAIL :: "string option"
  toISOString :: "nat \<Rightarrow> string"
  uptime :: "nat \<Rightarrow> jsval"
  JSON_parse :: "string \<Rightarrow> error + jsval"
  completions_create :: "string \<Rightarrow> error + jsval"
  sendMail :: "jsval \<Rightarrow> error + jsval"
  string_div100_toFixed2 :: "string \<Rightarrow> string"

text \<open>\<^verbatim>\<open>process.env.X\<close> as a value: a string when set, \<^verbatim>\<open>undefined\<close> otherwise.\<close>

definition env :: "string option \<Rightarrow> jsval" where
  "env x = (case x of None \<Rightarrow> JUndefined | Some s \<Rightarrow> JStr s)"

record log_entry =
  timestamp :: string
  level :: string
  message :: string
  data :: jsval

text \<open>
  The mutable state: the array \<^verbatim>\<open>logs\<close>, the number of clock readings so far (the clock is
  \<open>toISOString w\<close> at that index), and the lines written by \<^verbatim>\<open>console.log\<close>. Three
  auxiliary fields, which the program does not have, record its history for the
  statements below: \<open>journal\<close> is every entry ever pushed, \<open>dispatched\<close> the argument of
  every call of \<^verbatim>\<open>sendEmailAlert\<close>, \<open>outbox\<close> every message handed to \<^verbatim>\<open>transporter.sendMail\<close>.
  One request is handled at a time.
\<close>

record state =
  logs :: "log_entry list"
  ticks :: nat
  console :: "(string \<times> jsval) list"
  journal :: "log_entry list"
  dispatched :: "jsval list"
  outbox :: "jsval list"

definition init :: state where
  "init = \<lparr>logs = [], ticks = 0, console = [], journal = [], dispatched = [], outbox = []\<rparr>"

subsection \<open>\<^verbatim>\<open>addLog\<close>\<close>

definition addLog :: "world \<Rightarrow> string \<Rightarrow> string \<Rightarrow> jsval \<Rightarrow> state \<Rightarrow> state" where
  "addLog w lvl msg d0 st =
     (let d = (if d0 = JUndefined then JNull else d0);
          logEntry = \<lparr>timestamp = toISOString w (ticks st), level = lvl, message = msg, data = d\<rparr>;
          pushed = logs st @ [logEntry]
      in st\<lparr>logs := (if 100 < length pushed then tl pushed else pushed),
            ticks := Suc (ticks st),
            console := console st @ [(''['' @ lvl @ ''] '' @ msg, or_else d (JStr []))],
            journal := journal st @ [logEntry]\<rparr>)"

section \<open>Alert content\<close>

text \<open>The lines of a multi-line template literal, joined by newline characters.\<close>

definition join_lines :: "string list \<Rightarrow> string" where
  "join_lines ls = concat (case ls of [] \<Rightarrow> [] | l # rest \<Rightarrow> l # map (\<lambda>x. CHR 0x0A # x) rest)"

text \<open>\<^verbatim>\<open>toUpperCase\<close> on ASCII text; other characters are left as they are.\<close>

definition upper_char :: "char \<Rightarrow> char" where
  "upper_char c =
     (case map_of (zip ''abcdefghijklmnopqrstuvwxyz'' ''ABCDEFGHIJKLMNOPQRSTUVWXYZ'') c of
        None \<Rightarrow> c
      | Some u \<Rightarrow> u)"

text \<open>
  \<^verbatim>\<open>v?.toUpperCase()\<close>: skipped on \<^verbatim>\<open>undefined\<close> and \<^verbatim>\<open>null\<close>; only a string has the method,
  and calling what is not a function throws.
\<close>

fun toUpperCase_opt :: "jsval \<Rightarrow> error + jsval" where
  "toUpperCase_opt JUndefined = Inr JUndefined"
| "toUpperCase_opt JNull = Inr JUndefined"
| "toUpperCase_opt (JStr s) = Inr (JStr (map upper_char s))"
| "toUpperCase_opt v = Inl (TypeError ''failedPayment.currency?.toUpperCase is not a function'')"

text \<open>\<^verbatim>\<open>${e || 'd'}\<close> inside a template literal.\<close>

definition interp_or :: "error + jsval \<Rightarrow> string \<Rightarrow> error + string" where
  "interp_or r d = bindE r (\<lambda>v. to_string (or_else v (JStr d)))"

text \<open>\<^verbatim>\<open>(v / 100).toFixed(2)\<close>. An object or array is first converted to a string.\<close>

fun div100_toFixed2 :: "world \<Rightarrow> jsval \<Rightarrow> error + string" where
  "div100_toFixed2 w JUndefined = Inr ''NaN''"
| "div100_toFixed2 w JNull = Inr (int_div100_toFixed2 0)"
| "div100_toFixed2 w (JBool b) = Inr (int_div100_toFixed2 (if b then 1 else 0))"
| "div100_toFixed2 w (JNum n) = Inr (int_div100_toFixed2 n)"
| "div100_toFixed2 w (JStr s) = Inr (string_div100_toFixed2 w s)"
| "div100_toFixed2 w v = bindE (to_string v) (\<lambda>s. Inr (string_div100_toFixed2 w s))"

text \<open>The seven interpolated expressions of the two templates.\<close>

definition customer_name :: "jsval \<Rightarrow> error + string" where
  "customer_name failedPayment =
     interp_or (bindE (get_prop failedPayment ''customer'') (\<lambda>c. opt_prop c ''name'')) ''Unknown''"

definition customer_email :: "jsval \<Rightarrow> string \<Rightarrow> error + string" where
  "customer_email failedPayment d =
     interp_or (bindE (get_prop failedPayment ''customer'') (\<lambda>c. opt_prop c ''email'')) d"

definition amount_fixed :: "world \<Rightarrow> jsval \<Rightarrow> error + string" where
  "amount_fixed w failedPayment = bindE (get_prop failedPayment ''amount'') (div100_toFixed2 w)"

definition currency_upper :: "jsval \<Rightarrow> error + string" where
  "currency_upper failedPayment =
     interp_or (bindE (get_prop failedPayment ''currency'') toUpperCase_opt) ''USD''"

definition failure_code :: "jsval \<Rightarrow> error + string" where
  "failure_code failedPayment = interp_or (get_prop failedPayment ''failure_code'') ''Unknown''"

definition failure_message :: "jsval \<Rightarrow> error + string" where
  "failure_message failedPayment =
     interp_or (get_prop failedPayment ''failure_message'') ''No details provided''"

definition payment_method :: "jsval \<Rightarrow> error + string" where
  "payment_method failedPayment =
     interp_or (bindE (get_prop failedPayment ''payment_method_details'') (\<lambda>p. opt_prop p ''type''))
       ''Unknown''"

definition prompt_text ::
  "string \<Rightarrow> string \<Rightarrow> string \<Rightarrow> string \<Rightarrow> string \<Rightarrow> string \<Rightarrow> string \<Rightarrow> string" where
  \<open>prompt_text name email amount currency code msg method =
     join_lines
      [''Generate a professional email alert for a failed payment with the following details:'',
       ''    '',
       ''Customer: '' @ name,
       ''Email: '' @ email,
       ''Amount: $'' @ amount,
       ''Currency: '' @ currency,
       ''Failure Code: '' @ code,
       ''Failure Message: '' @ msg,
       ''Payment Method: '' @ method,
       [],
       ''Please create:'',
       ''1. A clear subject line'',
       ''2. A professional email body that includes next steps'',
       ''3. Keep it concise but informative'',
       [],
       ''Format as JSON with "subject" and "body" fields.'']\<close>

definition prompt :: "world \<Rightarrow> jsval \<Rightarrow> error + string" where
  "prompt w failedPayment =
     bindE (customer_name failedPayment) (\<lambda>name.
     bindE (customer_email failedPayment ''Not provided'') (\<lambda>email.
     bindE (amount_fixed w failedPayment) (\<lambda>amount.
     bindE (currency_upper failedPayment) (\<lambda>currency.
     bindE (failure_code failedPayment) (\<lambda>code.
     bindE (failure_message failedPayment) (\<lambda>msg.
     bindE (payment_method failedPayment) (\<lambda>method.
     Inr (prompt_text name email amount currency code msg method))))))))"

text \<open>The siren emoji U+1F6A8 that opens the fallback subject, as its UTF-8 bytes.\<close>

definition siren :: string where
  "siren = [CHR 0xF0, CHR 0x9F, CHR 0x9A, CHR 0xA8]"

definition fallback_subject :: "string \<Rightarrow> string \<Rightarrow> string" where
  "fallback_subject amount email = siren @ '' Payment Failed - $'' @ amount @ '' from '' @ email"

definition fallback_body ::
  "string \<Rightarrow> string \<Rightarrow> string \<Rightarrow> string \<Rightarrow> string \<Rightarrow> string \<Rightarrow> string \<Rightarrow> string" where
  "fallback_body name email amount currency msg code method =
     join_lines
      [''A payment has failed in your Stripe account.'',
       [],
       ''Details:'',
       ''- Customer: '' @ name @ '' ('' @ email @ '')'',
       ''- Amount: $'' @ amount @ '' '' @ currency,
       ''- Failure Reason: '' @ msg,
       ''- Failure Code: '' @ code,
       ''- Payment Method: '' @ method,
       [],
       ''Next Steps:'',
       ''1. Review the failure reason above'',
       ''2. Contact the customer if needed'',
       ''3. Check your Stripe dashboard for more details'',
       [],
       ''This is an automated alert from your Stripe monitoring system.'']"

text \<open>The object literal returned by the \<^verbatim>\<open>catch\<close> block; its template literals can throw too.\<close>

definition fallback :: "world \<Rightarrow> jsval \<Rightarrow> error + jsval" where
  "fallback w failedPayment =
     bindE (amount_fixed w failedPayment) (\<lambda>amount0.
     bindE (customer_email failedPayment ''Unknown Customer'') (\<lambda>email0.
     bindE (customer_name failedPayment) (\<lambda>name.
     bindE (customer_email failedPayment ''Not provided'') (\<lambda>email.
     bindE (amount_fixed w failedPayment) (\<lambda>amount.
     bindE (currency_upper failedPayment) (\<lambda>currency.
     bindE (failure_message failedPayment) (\<lambda>msg.
     bindE (failure_code failedPayment) (\<lambda>code.
     bindE (payment_method failedPayment) (\<lambda>method.
     Inr (JObj [(''subject'', JStr (fallback_subject amount0 email0)),
                (''body'', JStr (fallback_body name email amount currency msg code method))]))))))))))"

text \<open>
  The \<^verbatim>\<open>try\<close> block: build the prompt, call the text-generation service, read
  \<^verbatim>\<open>completion.choices[0].message.content\<close> and parse it as JSON.
\<close>

definition parsed_content :: "world \<Rightarrow> jsval \<Rightarrow> error + jsval" where
  "parsed_content w completion =
     bindE (get_prop completion ''choices'') (\<lambda>choices.
     bindE (index0 choices) (\<lambda>choice.
     bindE (get_prop choice ''message'') (\<lambda>m.
     bindE (get_prop m ''content'') (\<lambda>content.
     bindE (to_string content) (JSON_parse w)))))"

definition generated :: "world \<Rightarrow> jsval \<Rightarrow> error + jsval" where
  "generated w failedPayment =
     bindE (prompt w failedPayment) (\<lambda>p.
     bindE (completions_create w p) (parsed_content w))"

definition generateEmailContent :: "world \<Rightarrow> jsval \<Rightarrow> state \<Rightarrow> (error + jsval) \<times> state" where
  "generateEmailContent w failedPayment st =
     (case generated w failedPayment of
        Inr content \<Rightarrow> (Inr content, st)
      | Inl err \<Rightarrow>
          (fallback w failedPayment,
           addLog w ''error'' ''Failed to generate email content with OpenAI'' (JStr (err_message err)) st))"

section \<open>Alert dispatch\<close>

text \<open>\<^verbatim>\<open>body.replace(/\n/g, '<br>')\<close>: only a string has the method.\<close>

fun replace_newlines :: "jsval \<Rightarrow> error + jsval" where
  "replace_newlines JUndefined = Inl (cannot_read ''undefined'' ''replace'')"
| "replace_newlines JNull = Inl (cannot_read ''null'' ''replace'')"
| "replace_newlines (JStr s) =
     Inr (JStr (concat (map (\<lambda>c. if c = CHR 0x0A then ''<br>'' else [c]) s)))"
| "replace_newlines v = Inl (TypeError ''emailContent.body.replace is not a function'')"

definition mailOptions :: "world \<Rightarrow> jsval \<Rightarrow> error + jsval" where
  "mailOptions w emailContent =
     bindE (get_prop emailContent ''subject'') (\<lambda>subject.
     bindE (get_prop emailContent ''body'') (\<lambda>body.
     bindE (replace_newlines body) (\<lambda>html.
     Inr (JObj [(''from'', or_else (env (ALERT_EMAIL w)) (JStr ''stripe-monitor@yourdomain.com'')),
                (''to'', or_else (env (ALERT_EMAIL w)) (JStr ''admin@yourdomain.com'')),
                (''subject'', subject),
                (''text'', body),
                (''html'', html)]))))"

text \<open>
  The whole body of \<^verbatim>\<open>sendEmailAlert\<close> is one \<^verbatim>\<open>try\<close> block; every exception, also one from
  reading \<^verbatim>\<open>info.messageId\<close> after the mail went out, ends in the \<^verbatim>\<open>catch\<close> block.
\<close>

definition sendEmailAlert :: "world \<Rightarrow> jsval \<Rightarrow> state \<Rightarrow> (error + bool) \<times> state" where
  "sendEmailAlert w failedPayment st =
     (case generateEmailContent w failedPayment (st\<lparr>dispatched := dispatched st @ [failedPayment]\<rparr>) of
        (r, st1) \<Rightarrow>
          (case bindE r (mailOptions w) of
             Inl err \<Rightarrow>
               (Inr False, addLog w ''error'' ''Failed to send email alert'' (JStr (err_message err)) st1)
           | Inr opts \<Rightarrow>
               (let st2 = st1\<lparr>outbox := outbox st1 @ [opts]\<rparr>
                in case bindE (sendMail w opts) (\<lambda>info. get_prop info ''messageId'') of
                     Inl err \<Rightarrow>
                       (Inr False,
                        addLog w ''error'' ''Failed to send email alert'' (JStr (err_message err)) st2)
                   | Inr messageId \<Rightarrow>
                       (Inr True,
                        addLog w ''info'' ''Email alert sent successfully''
                          (JObj [(''messageId'', messageId)]) st2))))"

section \<open>The HTTP surface\<close>

datatype payload = Json jsval | Text string

record response =
  status :: nat
  body :: payload

definition json_response :: "jsval \<Rightarrow> response" where
  "json_response v = \<lparr>status = 200, body = Json v\<rparr>"

definition entry_json :: "log_entry \<Rightarrow> jsval" where
  "entry_json e =
     JObj [(''timestamp'', JStr (timestamp e)), (''level'', JStr (level e)),
           (''message'', JStr (message e)), (''data'', data e)]"

definition root :: "world \<Rightarrow> state \<Rightarrow> response \<times> state" where
  "root w st =
     (json_response (JObj
        [(''status'', JStr ''active''),
         (''service'', JStr ''Stripe Failed Payment Monitor''),
         (''endpoints'', JArr
            [JStr ''GET / - This status page'',
             JStr ''GET /health - Health check'',
             JStr ''GET /logs - View recent logs'',
             JStr ''POST /test - Test email alerts'',
             JStr ''POST /webhook - Stripe webhook endpoint'']),
         (''lastActivity'',
            JStr (if 0 < length (logs st) then timestamp (last (logs st)) else ''No activity yet''))]),
      st)"

definition health :: "world \<Rightarrow> state \<Rightarrow> response \<times> state" where
  "health w st =
     (json_response (JObj
        [(''status'', JStr ''healthy''),
         (''timestamp'', JStr (toISOString w (ticks st))),
         (''uptime'', uptime w (ticks st)),
         (''environment'', JObj
            [(''stripe_configured'', JBool (truthy (env (STRIPE_SECRET_KEY w)))),
             (''openai_configured'', JBool (truthy (env (OPENAI_API_KEY w)))),
             (''email_configured'', JBool (truthy (env (ALERT_EMAIL w))))])]),
      st\<lparr>ticks := Suc (ticks st)\<rparr>)"

definition get_logs :: "world \<Rightarrow> state \<Rightarrow> response \<times> state" where
  "get_logs w st =
     (let recentLogs = drop (length (logs st) - 50) (logs st)
      in (json_response (JObj
            [(''total'', JNum (int (length (logs st)))),
             (''logs'', JArr (map entry_json recentLogs))]),
          st))"

definition testPayment :: jsval where
  "testPayment =
     JObj [(''amount'', JNum 2999),
           (''currency'', JStr ''usd''),
           (''failure_code'', JStr ''card_declined''),
           (''failure_message'', JStr ''Your card was declined.''),
           (''customer'', JObj [(''name'', JStr ''Test Customer''), (''email'', JStr ''test@example.com'')]),
           (''payment_method_details'', JObj [(''type'', JStr ''card'')])]"

definition test :: "world \<Rightarrow> state \<Rightarrow> response \<times> state" where
  "test w st =
     (case sendEmailAlert w testPayment (addLog w ''info'' ''Manual test triggered'' JUndefined st) of
        (Inr success, st2) \<Rightarrow>
          (json_response (JObj
             [(''success'', JBool success),
              (''message'',
                 JStr (if success then ''Test email sent successfully!'' else ''Test email failed to send'')),
              (''testPayment'', testPayment)]),
           st2)
      | (Inl err, st2) \<Rightarrow>
          (\<lparr>status = 500,
            body = Json (JObj [(''success'', JBool False), (''error'', JStr (err_message err))])\<rparr>,
           addLog w ''error'' ''Test failed'' (JStr (err_message err)) st2))"

definition recognized :: "jsval \<Rightarrow> bool" where
  "recognized t =
     (t = JStr ''payment_intent.payment_failed'' \<or> t = JStr ''invoice.payment_failed''
      \<or> t = JStr ''charge.failed'')"

definition received :: response where
  "received = json_response (JObj [(''received'', JBool True)])"

definition webhook_failed :: "world \<Rightarrow> error \<Rightarrow> state \<Rightarrow> response \<times> state" where
  "webhook_failed w err st =
     (\<lparr>status = 400, body = Text (''Webhook Error: '' @ err_message err)\<rparr>,
      addLog w ''error'' ''Webhook processing failed'' (JStr (err_message err)) st)"

text \<open>
  The argument of \<^verbatim>\<open>addLog('warning', ...)\<close>: three reads of \<^verbatim>\<open>paymentData\<close>, which throw on
  \<^verbatim>\<open>undefined\<close> and \<^verbatim>\<open>null\<close>, before the entry is written.
\<close>

definition failure_summary :: "jsval \<Rightarrow> error + jsval" where
  "failure_summary paymentData =
     bindE (get_prop paymentData ''amount'') (\<lambda>a.
     bindE (get_prop paymentData ''customer'') (\<lambda>c.
     bindE (get_prop paymentData ''failure_code'') (\<lambda>f.
     Inr (JObj [(''amount'', a), (''customer'', c), (''failure_code'', f)]))))"

text \<open>
  \<open>raw\<close> is the request body as \<^verbatim>\<open>JSON.parse\<close> receives it. Everything in the handler is
  inside one \<^verbatim>\<open>try\<close> block.
\<close>

definition webhook :: "world \<Rightarrow> string \<Rightarrow> state \<Rightarrow> response \<times> state" where
  "webhook w raw st =
     (case JSON_parse w raw of
        Inl err \<Rightarrow> webhook_failed w err st
      | Inr event \<Rightarrow>
          (case bindE (get_prop event ''type'') (\<lambda>t. bindE (to_string t) (\<lambda>s. Inr (t, s))) of
             Inl err \<Rightarrow> webhook_failed w err st
           | Inr (t, type_text) \<Rightarrow>
               (let st1 = addLog w ''info'' (''Received Stripe event: '' @ type_text) JUndefined st
                in if recognized t then
                     (case bindE (get_prop event ''data'') (\<lambda>d. get_prop d ''object'') of
                        Inl err \<Rightarrow> webhook_failed w err st1
                      | Inr paymentData \<Rightarrow>
                          (case failure_summary paymentData of
                             Inl err \<Rightarrow> webhook_failed w err st1
                           | Inr summary \<Rightarrow>
                               (case sendEmailAlert w paymentData
                                       (addLog w ''warning'' ''Payment failure detected'' summary st1) of
                                  (Inl err, st3) \<Rightarrow> webhook_failed w err st3
                                | (Inr sent, st3) \<Rightarrow> (received, st3))))
                   else (received, st1))))"

text \<open>The callback of \<^verbatim>\<open>app.listen\<close> writes the first entry.\<close>

definition listen :: "world \<Rightarrow> state" where
  "listen w =
     addLog w ''info''
       (''Stripe Failed Payment Monitor started on port ''
          @ (case PORT w of None \<Rightarrow> int_str 3000 | Some p \<Rightarrow> if p = [] then int_str 3000 else p))
       JUndefined init"

datatype request = GET_root | GET_health | GET_logs | POST_test | POST_webhook string

fun handle :: "world \<Rightarrow> request \<Rightarrow> state \<Rightarrow> response \<times> state" where
  "handle w GET_root st = root w st"
| "handle w GET_health st = health w st"
| "handle w GET_logs st = get_logs w st"
| "handle w POST_test st = test w st"
| "handle w (POST_webhook raw) st = webhook w raw st"

section \<open>Notions used in the statements\<close>

text \<open>A run of \<^verbatim>\<open>addLog\<close> calls, and the entries those calls construct from clock reading \<open>k\<close> on.\<close>

fun addLogs :: "world \<Rightarrow> (string \<times> string \<times> jsval) list \<Rightarrow> state \<Rightarrow> state" where
  "addLogs w [] st = st"
| "addLogs w ((lvl, msg, d) # calls) st = addLogs w calls (addLog w lvl msg d st)"

fun entries_of :: "world \<Rightarrow> nat \<Rightarrow> (string \<times> string \<times> jsval) list \<Rightarrow> log_entry list" where
  "entries_of w k [] = []"
| "entries_of w k ((lvl, msg, d) # calls) =
     \<lparr>timestamp = toISOString w k, level = lvl, message = msg,
      data = (if d = JUndefined then JNull else d)\<rparr> # entries_of w (Suc k) calls"

text \<open>The entries pushed between two states, and the warnings among them.\<close>

definition appended :: "state \<Rightarrow> state \<Rightarrow> log_entry list" where
  "appended st st' = drop (length (journal st)) (journal st')"

definition warnings :: "log_entry list \<Rightarrow> log_entry list" where
  "warnings es = filter (\<lambda>e. level e = ''warning'') es"

text \<open>
  \<open>st'\<close> continues \<open>st\<close>: its buffer is the old buffer followed by the entries pushed
  since, with some of the oldest removed. No entry is altered or reordered.
\<close>

definition continues :: "state \<Rightarrow> state \<Rightarrow> bool" where
  "continues st st' =
     (\<exists>es k. journal st' = journal st @ es \<and> k \<le> length (logs st @ es)
        \<and> logs st' = drop k (logs st @ es))"

text \<open>The value of a property, \<^verbatim>\<open>undefined\<close> where the read is skipped or impossible.\<close>

definition field :: "jsval \<Rightarrow> string \<Rightarrow> jsval" where
  "field v k = (case get_prop v k of Inl e \<Rightarrow> JUndefined | Inr x \<Rightarrow> x)"

fun scalar :: "jsval \<Rightarrow> bool" where
  "scalar (JArr xs) = False"
| "scalar (JObj kvs) = False"
| "scalar v = True"

fun text_or_missing :: "jsval \<Rightarrow> bool" where
  "text_or_missing JUndefined = True"
| "text_or_missing JNull = True"
| "text_or_missing (JStr s) = True"
| "text_or_missing v = False"

text \<open>
  A payment record as the templates expect it: every field they print is a string, a
  number, a boolean, \<^verbatim>\<open>null\<close> or missing, and the currency is a string, \<^verbatim>\<open>null\<close> or missing.
\<close>

definition payment_shaped :: "jsval \<Rightarrow> bool" where
  "payment_shaped p =
     (\<not> nullish p \<and> scalar (field p ''amount'') \<and> text_or_missing (field p ''currency'')
      \<and> scalar (field p ''failure_code'') \<and> scalar (field p ''failure_message'')
      \<and> scalar (field (field p ''customer'') ''name'')
      \<and> scalar (field (field p ''customer'') ''email'')
      \<and> scalar (field (field p ''payment_method_details'') ''type''))"

text \<open>An alert content: an object whose \<^verbatim>\<open>subject\<close> and \<^verbatim>\<open>body\<close> are strings.\<close>

definition is_alert_content :: "jsval \<Rightarrow> bool" where
  "is_alert_content v =
     (case (field v ''subject'', field v ''body'') of (JStr s, JStr b) \<Rightarrow> True | _ \<Rightarrow> False)"

text \<open>
  An event the webhook handler can process: its \<^verbatim>\<open>type\<close> can be read and printed and, when
  the type is a recognized failure, \<^verbatim>\<open>data.object\<close> can be read and is neither \<^verbatim>\<open>undefined\<close>
  nor \<^verbatim>\<open>null\<close>.
\<close>

definition processable :: "jsval \<Rightarrow> bool" where
  "processable event =
     (case bindE (get_prop event ''type'') to_string of
        Inl e \<Rightarrow> False
      | Inr s \<Rightarrow>
          (if recognized (field event ''type'')
           then \<not> nullish (field event ''data'') \<and> \<not> nullish (field (field event ''data'') ''object'')
           else True))"

definition accepted :: "world \<Rightarrow> string \<Rightarrow> bool" where
  "accepted w raw = (case JSON_parse w raw of Inl e \<Rightarrow> False | Inr event \<Rightarrow> processable event)"

text \<open>
  The decimal numeral of \<open>n / 100\<close> with two fraction digits: the digits of \<open>n div 100\<close>, a
  point, and the two digits of \<open>n mod 100\<close>.
\<close>

definition two_places :: "nat \<Rightarrow> string" where
  "two_places n = nat_str (n div 100) @ ''.'' @ [digit_char (n mod 100 div 10), digit_char (n mod 10)]"

text \<open>An environment variable when it is set to a non-empty string, else the default.\<close>

definition configured_or :: "string option \<Rightarrow> string \<Rightarrow> string" where
  "configured_or x d = (case x of None \<Rightarrow> d | Some s \<Rightarrow> if s = [] then d else s)"

text \<open>Whether an environment variable is set to a non-empty string.\<close>

definition non_empty :: "string option \<Rightarrow> bool" where
  "non_empty x = (case x of None \<Rightarrow> False | Some s \<Rightarrow> s \<noteq> [])"

section \<open>Example worlds\<close>

text \<open>
  \<^verbatim>\<open>JSON.parse\<close> on the request bodies and service replies used in the examples; any other
  text is rejected here.
\<close>

definition sample_parse :: "string \<Rightarrow> error + jsval" where
  \<open>sample_parse s =
     (case map_of
        [(''null'', JNull),
         (''42'', JNum 42),
         (''{"subject":"Payment failed"}'', JObj [(''subject'', JStr ''Payment failed'')]),
         (''{"type":"charge.failed"}'', JObj [(''type'', JStr ''charge.failed'')]),
         (''{"type":"customer.created"}'', JObj [(''type'', JStr ''customer.created'')]),
         (''{"type":"payment_intent.payment_failed","data":{"object":{"amount":500,"currency":"usd"}}}'',
          JObj [(''type'', JStr ''payment_intent.payment_failed''),
                (''data'', JObj [(''object'', JObj [(''amount'', JNum 500), (''currency'', JStr ''usd'')])])]),
         (''{"subject":"Payment failed","body":"Please review."}'',
          JObj [(''subject'', JStr ''Payment failed''), (''body'', JStr ''Please review.'')])] s of
        None \<Rightarrow> Inl (SyntaxError ''Unexpected token'')
      | Some v \<Rightarrow> Inr v)\<close>

definition completion_of :: "string \<Rightarrow> jsval" where
  "completion_of content =
     JObj [(''choices'', JArr [JObj [(''message'', JObj [(''role'', JStr ''assistant''),
                                                       (''content'', JStr content)])]])]"

text \<open>The two keys set, no alert address, both services failing.\<close>

definition offline :: world where
  "offline =
     \<lparr>PORT = None, STRIPE_SECRET_KEY = Some ''sk_test_1'', OPENAI_API_KEY = Some ''sk-1'',
      ALERT_EMAIL = None,
      toISOString = (\<lambda>n. ''2026-01-01T00:00:00.000Z''),
      uptime = (\<lambda>n. JNum (int n)),
      JSON_parse = sample_parse,
      completions_create = (\<lambda>p. Inl (ServiceError ''Connection error.'')),
      sendMail = (\<lambda>m. Inl (ServiceError ''Invalid login'')),
      string_div100_toFixed2 = (\<lambda>s. ''NaN'')\<rparr>"

text \<open>The alert address set, both services answering; the generated text is the one given.\<close>

definition online :: "string \<Rightarrow> world" where
  "online content =
     offline\<lparr>ALERT_EMAIL := Some ''ops@example.com'',
             completions_create := (\<lambda>p. Inr (completion_of content)),
             sendMail := (\<lambda>m. Inr (JObj [(''messageId'', JStr ''<1@example.com>'')]))\<rparr>"

section \<open>The log buffer\<close>

lemma addLog_logs:
  "logs (addLog w lvl msg d st) =
     drop (if 100 \<le> length (logs st) then 1 else 0)
       (logs st @ [\<lparr>timestamp = toISOString w (ticks st), level = lvl, message = msg,
                    data = (if d = JUndefined then JNull else d)\<rparr>])"
  by (cases "logs st") (simp_all add: addLog_def Let_def)

lemma addLog_journal:
  "journal (addLog w lvl msg d st) =
     journal st @ [\<lparr>timestamp = toISOString w (ticks st), level = lvl, message = msg,
                    data = (if d = JUndefined then JNull else d)\<rparr>]"
  by (simp add: addLog_def Let_def)

lemma addLog_ticks: "ticks (addLog w lvl msg d st) = Suc (ticks st)"
  by (simp add: addLog_def Let_def)

lemma addLog_dispatched: "dispatched (addLog w lvl msg d st) = dispatched st"
  by (simp add: addLog_def Let_def)

lemma addLog_outbox: "outbox (addLog w lvl msg d st) = outbox st"
  by (simp add: addLog_def Let_def)

lemma addLogs_logs:
  "length (logs st) \<le> 100 \<Longrightarrow>
   logs (addLogs w calls st) =
     drop (length (logs st) + length calls - 100) (logs st @ entries_of w (ticks st) calls)"
proof (induction calls arbitrary: st)
  case Nil
  then show ?case by simp
next
  case (Cons c calls)
  obtain lvl msg d where c: "c = (lvl, msg, d)" by (cases c)
  let ?e = "\<lparr>timestamp = toISOString w (ticks st), level = lvl, message = msg,
              data = (if d = JUndefined then JNull else d)\<rparr>"
  let ?st = "addLog w lvl msg d st"
  show ?case
  proof (cases "length (logs st) = 100")
    case True
    then have l: "logs ?st = tl (logs st) @ [?e]"
      by (cases "logs st") (simp_all add: addLog_logs)
    then have len: "length (logs ?st) \<le> 100" using True by simp
    have "logs (addLogs w (c # calls) st) = logs (addLogs w calls ?st)"
      by (simp add: c)
    also have "\<dots> = drop (length (logs ?st) + length calls - 100)
                     (logs ?st @ entries_of w (ticks ?st) calls)"
      by (rule Cons.IH [OF len])
    also have "\<dots> = drop (length calls) (tl (logs st) @ ?e # entries_of w (Suc (ticks st)) calls)"
      using True by (simp add: l addLog_ticks)
    also have "\<dots> = drop (Suc (length calls)) (logs st @ ?e # entries_of w (Suc (ticks st)) calls)"
      using True by (cases "logs st") simp_all
    finally show ?thesis using True by (simp add: c)
  next
    case False
    with Cons.prems have lt: "length (logs st) < 100" by simp
    then have l: "logs ?st = logs st @ [?e]"
      by (simp add: addLog_logs)
    then have len: "length (logs ?st) \<le> 100" using lt by simp
    have "logs (addLogs w (c # calls) st) = logs (addLogs w calls ?st)"
      by (simp add: c)
    also have "\<dots> = drop (length (logs ?st) + length calls - 100)
                     (logs ?st @ entries_of w (ticks ?st) calls)"
      by (rule Cons.IH [OF len])
    finally show ?thesis by (simp add: l c addLog_ticks)
  qed
qed

lemma length_entries_of: "length (entries_of w k calls) = length calls"
  by (induction calls arbitrary: k) auto

text \<open>
  Claim C3. The log buffer never exceeds 100 entries: after a run of more than 100
  appends, started with at most 100 entries in the buffer (it is empty when the process
  starts), the buffer holds exactly 100 entries, and they are the last 100 entries
  appended, in the order of their insertion.
\<close>

theorem log_buffer_keeps_last_100:
  assumes "length (logs st) \<le> 100" and "100 < length calls"
  shows "length (logs (addLogs w calls st)) = 100
       \<and> logs (addLogs w calls st) = drop (length calls - 100) (entries_of w (ticks st) calls)"
proof -
  have "logs (addLogs w calls st) =
          drop (length (logs st) + length calls - 100) (logs st @ entries_of w (ticks st) calls)"
    by (rule addLogs_logs [OF assms(1)])
  also have "\<dots> = drop (length calls - 100) (entries_of w (ticks st) calls)"
    using assms(2) by simp
  finally have eq: "logs (addLogs w calls st) = drop (length calls - 100) (entries_of w (ticks st) calls)" .
  then show ?thesis using assms(2) by (simp add: length_entries_of)
qed

theorem log_buffer_keeps_last_100_witness:
  "length (logs init) \<le> 100 \<and> 100 < length (replicate 101 (''info'', ''tick'', JNull))
   \<and> length (logs (addLogs offline (replicate 101 (''info'', ''tick'', JNull)) init)) = 100
   \<and> logs (addLogs offline (replicate 101 (''info'', ''tick'', JNull)) init)
       = drop 1 (entries_of offline (ticks init) (replicate 101 (''info'', ''tick'', JNull)))"
proof -
  have a: "length (logs init) \<le> 100" by (simp add: init_def)
  have b: "100 < length (replicate 101 (''info'', ''tick'', JNull))" by simp
  show ?thesis
    using a b log_buffer_keeps_last_100 [OF a b, of offline] by (simp add: length_entries_of)
qed

section \<open>Entries are only appended and evicted\<close>

lemma continues_refl: "continues st st"
  unfolding continues_def by (rule exI [of _ "[]"], rule exI [of _ 0]) simp

lemma continues_same:
  "journal st' = journal st \<Longrightarrow> logs st' = logs st \<Longrightarrow> continues st st'"
  unfolding continues_def by (rule exI [of _ "[]"], rule exI [of _ 0]) simp

lemma continues_trans:
  assumes "continues a b" and "continues b c"
  shows "continues a c"
proof -
  from assms(1) obtain es k where
    1: "journal b = journal a @ es" "k \<le> length (logs a @ es)" "logs b = drop k (logs a @ es)"
    unfolding continues_def by blast
  from assms(2) obtain fs j where
    2: "journal c = journal b @ fs" "j \<le> length (logs b @ fs)" "logs c = drop j (logs b @ fs)"
    unfolding continues_def by blast
  define xs where "xs = logs a @ es"
  have k: "k \<le> length xs" and b: "logs b = drop k xs"
    using 1 by (simp_all add: xs_def)
  have "logs c = drop j (drop k xs @ fs)"
    using 2 b by simp
  moreover have "drop k xs @ fs = drop k (xs @ fs)"
    using k by simp
  ultimately have "logs c = drop j (drop k (xs @ fs))"
    by (simp only:)
  then have "logs c = drop (j + k) (xs @ fs)"
    by (simp only: drop_drop)
  moreover have "j + k \<le> length (xs @ fs)"
    using 2(2) k b by simp
  moreover have "journal c = journal a @ (es @ fs)"
    using 1 2 by simp
  ultimately show ?thesis
    unfolding continues_def xs_def
    by (intro exI [of _ "es @ fs"] exI [of _ "j + k"]) simp
qed

lemma continues_addLog: "continues st (addLog w lvl msg d st)"
  unfolding continues_def
  by (intro exI [of _ "[\<lparr>timestamp = toISOString w (ticks st), level = lvl, message = msg,
                    data = (if d = JUndefined then JNull else d)\<rparr>]"]
            exI [of _ "if 100 \<le> length (logs st) then 1 else 0"])
     (simp add: addLog_logs addLog_journal)

lemma sendEmailAlert_returns: "\<exists>sent. fst (sendEmailAlert w p st) = Inr sent"
  by (auto simp: sendEmailAlert_def Let_def split: prod.splits sum.splits)

lemma generateEmailContent_dispatched:
  "dispatched (snd (generateEmailContent w p st)) = dispatched st"
  by (simp add: generateEmailContent_def addLog_dispatched split: sum.splits)

lemma sendEmailAlert_dispatched:
  "dispatched (snd (sendEmailAlert w p st)) = dispatched st @ [p]"
  using generateEmailContent_dispatched [of w p "st\<lparr>dispatched := dispatched st @ [p]\<rparr>"]
  by (auto simp: sendEmailAlert_def Let_def addLog_dispatched split: prod.splits sum.splits)


lemma continues_generateEmailContent: "continues st (snd (generateEmailContent w p st))"
  by (simp add: generateEmailContent_def continues_refl continues_addLog split: sum.splits)

lemma continues_then_addLog: "continues st s \<Longrightarrow> continues st (addLog w lvl msg d s)"
  by (blast intro: continues_trans continues_addLog)

lemma continues_sendEmailAlert: "continues st (snd (sendEmailAlert w p st))"
proof -
  let ?st0 = "st\<lparr>dispatched := dispatched st @ [p]\<rparr>"
  obtain r st1 where g: "generateEmailContent w p ?st0 = (r, st1)"
    by (cases "generateEmailContent w p ?st0")
  have "continues st ?st0"
    by (rule continues_same) simp_all
  moreover have "continues ?st0 st1"
    using continues_generateEmailContent [of ?st0 w p] g by simp
  ultimately have 1: "continues st st1"
    by (rule continues_trans)
  have 2: "continues st (st1\<lparr>outbox := x\<rparr>)" for x
    by (rule continues_trans [OF 1]) (rule continues_same, simp_all)
  show ?thesis
    using 1 2 by (auto simp: sendEmailAlert_def g Let_def split: sum.splits intro!: continues_then_addLog)
qed

lemma continues_handle: "continues st (snd (handle w req st))"
proof (cases req)
  case GET_root
  then show ?thesis by (simp add: root_def continues_refl)
next
  case GET_health
  then show ?thesis by (simp add: health_def continues_same)
next
  case GET_logs
  then show ?thesis by (simp add: get_logs_def Let_def continues_refl)
next
  case POST_test
  let ?st1 = "addLog w ''info'' ''Manual test triggered'' JUndefined st"
  have "continues st (snd (sendEmailAlert w testPayment ?st1))"
    by (rule continues_trans [OF continues_addLog continues_sendEmailAlert])
  then show ?thesis
    using POST_test
    by (auto simp: test_def split: prod.splits sum.splits intro!: continues_then_addLog)
next
  case (POST_webhook raw)
  have fail: "continues st s \<Longrightarrow> continues st (snd (webhook_failed w err s))" for s err
    by (simp add: webhook_failed_def continues_then_addLog)
  have send: "continues st s \<Longrightarrow> continues st (snd (sendEmailAlert w p s))" for s p
    by (blast intro: continues_trans continues_sendEmailAlert)
  have send': "continues st s \<Longrightarrow> sendEmailAlert w p s = (r, s') \<Longrightarrow> continues st s'" for s p r s'
    using send [of s p] by simp
  show ?thesis
    using POST_webhook
    by (auto simp: webhook_def Let_def continues_refl continues_addLog
             split: sum.splits prod.splits
             intro!: fail continues_then_addLog elim!: send' [rotated])
qed


lemma addLog_appends:
  "logs (addLog w lvl msg d st) =
     drop (if 100 \<le> length (logs st) then 1 else 0) (logs st)
       @ [\<lparr>timestamp = toISOString w (ticks st), level = lvl, message = msg,
            data = (if d = JUndefined then JNull else d)\<rparr>]"
  by (cases "logs st") (simp_all add: addLog_def Let_def)

text \<open>
  Claim C10. Every call of \<^verbatim>\<open>addLog\<close> puts exactly one new entry at the end of the buffer
  and keeps the entries that were there, unchanged and in their order, except that the
  single oldest one is evicted when the buffer already held 100; and no request handler
  ever changes an entry: after any request the buffer is the old buffer followed by the
  entries pushed meanwhile, without some of the oldest.
\<close>

theorem addLog_appends_one_and_handlers_preserve:
  "logs (addLog w lvl msg d st) =
     drop (if 100 \<le> length (logs st) then 1 else 0) (logs st)
       @ [\<lparr>timestamp = toISOString w (ticks st), level = lvl, message = msg,
            data = (if d = JUndefined then JNull else d)\<rparr>]
   \<and> continues st (addLog w lvl msg d st)
   \<and> continues st (snd (handle w req st))"
  by (simp only: addLog_appends continues_addLog continues_handle simp_thms)

section \<open>Evaluation on concrete inputs\<close>

lemma scale_numeral:
  "scale (numeral p) d =
     (if (numeral p :: int) < 100 * 2 ^ 52 then scale (2 * numeral p) (2 * d) else (numeral p, d))"
  by (subst scale.simps) simp

lemma scale_zero: "scale 0 d = (0, d)"
  by (subst scale.simps) simp

lemma nat_str_numeral:
  "nat_str (numeral k) =
     (if (numeral k :: nat) < 10 then [digit_char (numeral k)]
      else nat_str (numeral k div 10) @ [digit_char (numeral k mod 10)])"
  by (subst nat_str.simps) simp

lemma nat_str_zero: "nat_str 0 = ''0''"
  by (subst nat_str.simps) (simp add: digit_char_def)

lemma nat_str_one: "nat_str (Suc 0) = ''1''"
  by (subst nat_str.simps) (simp add: digit_char_def)

lemmas number_eval =
  scale_numeral scale_zero nat_str_numeral nat_str_zero nat_str_one digit_char_def
  int_str_def int_div100_toFixed2_def double_div100_def round_even_def toFixed2_def

lemmas content_eval =
  bindE_def nullish_def or_else_def opt_prop_def interp_or_def field_def cannot_read_def
  customer_name_def customer_email_def amount_fixed_def currency_upper_def failure_code_def
  failure_message_def payment_method_def upper_char_def join_lines_def
  prompt_def prompt_text_def fallback_def fallback_subject_def fallback_body_def
  parsed_content_def generated_def generateEmailContent_def env_def mailOptions_def

lemmas world_eval = offline_def online_def completion_of_def sample_parse_def

section \<open>The health and test endpoints\<close>

lemma truthy_env: "truthy (env x) = non_empty x"
  by (cases x) (simp_all add: env_def non_empty_def)

text \<open>
  Claim C9. The three booleans of the \<^verbatim>\<open>GET /health\<close> response say exactly whether
  \<^verbatim>\<open>STRIPE_SECRET_KEY\<close>, \<^verbatim>\<open>OPENAI_API_KEY\<close> and \<^verbatim>\<open>ALERT_EMAIL\<close> are set to a non-empty string,
  whatever the strings are.
\<close>

theorem health_reports_configuration:
  "fst (health w st) =
     json_response (JObj
       [(''status'', JStr ''healthy''),
        (''timestamp'', JStr (toISOString w (ticks st))),
        (''uptime'', uptime w (ticks st)),
        (''environment'', JObj
           [(''stripe_configured'', JBool (non_empty (STRIPE_SECRET_KEY w))),
            (''openai_configured'', JBool (non_empty (OPENAI_API_KEY w))),
            (''email_configured'', JBool (non_empty (ALERT_EMAIL w)))])])"
  by (simp add: health_def truthy_env)

theorem health_reports_configuration_witness:
  "fst (health (offline\<lparr>ALERT_EMAIL := Some []\<rparr>) init) =
     json_response (JObj
       [(''status'', JStr ''healthy''),
        (''timestamp'', JStr ''2026-01-01T00:00:00.000Z''),
        (''uptime'', JNum 0),
        (''environment'', JObj
           [(''stripe_configured'', JBool True),
            (''openai_configured'', JBool True),
            (''email_configured'', JBool False)])])
   \<and> fst (health (online []) init) =
     json_response (JObj
       [(''status'', JStr ''healthy''),
        (''timestamp'', JStr ''2026-01-01T00:00:00.000Z''),
        (''uptime'', JNum 0),
        (''environment'', JObj
           [(''stripe_configured'', JBool True),
            (''openai_configured'', JBool True),
            (''email_configured'', JBool True)])])"
  using health_reports_configuration [of "offline\<lparr>ALERT_EMAIL := Some []\<rparr>" init]
        health_reports_configuration [of "online []" init]
  by (simp add: non_empty_def offline_def online_def init_def)

text \<open>
  Claim C8. Whatever the text-generation service and the mail transport do, the response
  of \<^verbatim>\<open>POST /test\<close> has status 200 and carries a boolean \<^verbatim>\<open>success\<close>, the matching message, and
  the synthetic test payment, field for field.
\<close>

theorem test_echoes_testPayment:
  "\<exists>success.
     fst (test w st) =
       \<lparr>status = 200,
        body = Json (JObj
          [(''success'', JBool success),
           (''message'',
              JStr (if success then ''Test email sent successfully!'' else ''Test email failed to send'')),
           (''testPayment'', JObj
              [(''amount'', JNum 2999),
               (''currency'', JStr ''usd''),
               (''failure_code'', JStr ''card_declined''),
               (''failure_message'', JStr ''Your card was declined.''),
               (''customer'', JObj [(''name'', JStr ''Test Customer''), (''email'', JStr ''test@example.com'')]),
               (''payment_method_details'', JObj [(''type'', JStr ''card'')])])])\<rparr>"
proof -
  obtain sent s' where
    r: "sendEmailAlert w testPayment (addLog w ''info'' ''Manual test triggered'' JUndefined st) = (Inr sent, s')"
    using sendEmailAlert_returns
            [of w testPayment "addLog w ''info'' ''Manual test triggered'' JUndefined st"]
    by (cases "sendEmailAlert w testPayment (addLog w ''info'' ''Manual test triggered'' JUndefined st)") auto
  have "fst (test w st) =
          json_response (JObj
            [(''success'', JBool sent),
             (''message'',
                JStr (if sent then ''Test email sent successfully!'' else ''Test email failed to send'')),
             (''testPayment'', testPayment)])"
    by (simp add: test_def r)
  then show ?thesis
    unfolding testPayment_def json_response_def by blast
qed

theorem test_echoes_testPayment_witness:
  \<open>fst (test offline init) =
     \<lparr>status = 200,
      body = Json (JObj
        [(''success'', JBool False),
         (''message'', JStr ''Test email failed to send''),
         (''testPayment'', testPayment)])\<rparr>
   \<and> fst (test (online ''{"subject":"Payment failed","body":"Please review."}'') init) =
     \<lparr>status = 200,
      body = Json (JObj
        [(''success'', JBool True),
         (''message'', JStr ''Test email sent successfully!''),
         (''testPayment'', testPayment)])\<rparr>\<close>
proof -
  let ?w = \<open>online ''{"subject":"Payment failed","body":"Please review."}''\<close>
  let ?s = "\<lambda>w. fst (sendEmailAlert w testPayment (addLog w ''info'' ''Manual test triggered'' JUndefined init))"
  have a: "?s offline = Inr False"
    by (simp add: sendEmailAlert_def Let_def content_eval number_eval world_eval testPayment_def)
  have b: "?s ?w = Inr True"
    by (simp add: sendEmailAlert_def Let_def content_eval number_eval world_eval testPayment_def)
  from test_echoes_testPayment [of offline init] obtain s1 where
    1: "fst (test offline init) =
          \<lparr>status = 200,
           body = Json (JObj
             [(''success'', JBool s1),
              (''message'', JStr (if s1 then ''Test email sent successfully!'' else ''Test email failed to send'')),
              (''testPayment'', testPayment)])\<rparr>"
    unfolding testPayment_def by blast
  from test_echoes_testPayment [of ?w init] obtain s2 where
    2: "fst (test ?w init) =
          \<lparr>status = 200,
           body = Json (JObj
             [(''success'', JBool s2),
              (''message'', JStr (if s2 then ''Test email sent successfully!'' else ''Test email failed to send'')),
              (''testPayment'', testPayment)])\<rparr>"
    unfolding testPayment_def by blast
  have "s1 = False"
    using 1 a by (auto simp: test_def json_response_def split: prod.splits sum.splits)
  moreover have "s2 = True"
    using 2 b by (auto simp: test_def json_response_def split: prod.splits sum.splits)
  ultimately show ?thesis
    using 1 2 by simp
qed

section \<open>Amount formatting\<close>

text \<open>
  The double nearest to \<open>a / 100\<close> is off by at most half a unit in the last of its 53
  bits. Below \<open>2 ^ 52\<close> that error, multiplied by 100, stays under one half, so the
  integer \<^verbatim>\<open>toFixed(2)\<close> picks is \<open>a\<close> itself and the digits are exact.
\<close>

lemma scale_result:
  "0 < p \<Longrightarrow> scale p d = (p', d') \<Longrightarrow> p' * d = p * d' \<and> 100 * 2 ^ 52 \<le> p'"
proof (induction p d rule: scale.induct)
  case (1 p d)
  show ?case
  proof (cases "p < 100 * 2 ^ 52")
    case True
    with "1.prems" have "scale (2 * p) (2 * d) = (p', d')"
      by (subst (asm) scale.simps) simp
    with "1.IH" [of] True "1.prems"(1) have "p' * (2 * d) = 2 * p * d' \<and> 100 * 2 ^ 52 \<le> p'"
      by simp
    then show ?thesis by simp
  next
    case False
    with "1.prems" have "p' = p" "d' = d"
      by (subst (asm) scale.simps, simp)+
    with False show ?thesis by simp
  qed
qed

lemma round_even_near:
  "0 < d \<Longrightarrow> 2 * p - d \<le> 2 * d * round_even p d \<and> 2 * d * round_even p d \<le> 2 * p + d"
proof -
  assume d: "0 < d"
  have p: "p = d * (p div d) + p mod d" by simp
  have r: "0 \<le> p mod d" "p mod d < d" using d by simp_all
  define q where "q = p div d"
  define r where "r = p mod d"
  have pq: "p = d * q + r" and r0: "0 \<le> r" and r1: "r < d"
    using p r by (simp_all add: q_def r_def)
  have m: "round_even p d = (if 2 * r < d then q else if d < 2 * r then q + 1 else if even q then q else q + 1)"
    by (simp add: round_even_def Let_def q_def r_def)
  show ?thesis
    unfolding m using pq r0 r1 d by (auto simp: algebra_simps)
qed

lemma nat_str_not_Nil: "nat_str n \<noteq> []"
  by (subst nat_str.simps) simp

lemma nat_str_small: "n < 10 \<Longrightarrow> nat_str n = [digit_char n]"
  by (subst nat_str.simps) simp

lemma nat_str_step: "10 \<le> n \<Longrightarrow> nat_str n = nat_str (n div 10) @ [digit_char (n mod 10)]"
  by (subst nat_str.simps) simp

lemma nat_str_last_two:
  assumes "100 \<le> n"
  shows "nat_str n = nat_str (n div 100) @ [digit_char (n mod 100 div 10), digit_char (n mod 10)]"
proof -
  have a: "nat_str n = nat_str (n div 10) @ [digit_char (n mod 10)]"
    using assms by (intro nat_str_step) simp
  have "10 \<le> n div 10" using assms by simp
  then have b: "nat_str (n div 10) = nat_str (n div 10 div 10) @ [digit_char (n div 10 mod 10)]"
    by (rule nat_str_step)
  have c: "n div 10 div 10 = n div 100" by (simp add: div_mult2_eq [symmetric])
  have "n mod 100 = 10 * (n div 10 mod 10) + n mod 10"
    using mod_mult2_eq [of n 10 10] by simp
  then have d: "n div 10 mod 10 = n mod 100 div 10"
    by simp
  show ?thesis by (simp add: a b c d)
qed

lemma pad_split:
  "(let s = nat_str n; z = replicate (3 - length s) (CHR ''0'') @ s
    in take (length z - 2) z @ ''.'' @ drop (length z - 2) z) = two_places n"
proof -
  consider "n < 10" | "10 \<le> n" "n < 100" | "100 \<le> n" by linarith
  then show ?thesis
  proof cases
    case 1
    then show ?thesis
      by (simp add: two_places_def nat_str_small nat_str_zero digit_char_def)
  next
    case 2
    then have "n div 10 < 10" by simp
    with 2 have s: "nat_str n = [digit_char (n div 10), digit_char (n mod 10)]"
      by (simp add: nat_str_step nat_str_small)
    from 2 show ?thesis
      by (simp add: s two_places_def nat_str_zero)
  next
    case 3
    have s: "nat_str n = nat_str (n div 100) @ [digit_char (n mod 100 div 10), digit_char (n mod 10)]"
      by (rule nat_str_last_two [OF 3])
    have "3 \<le> length (nat_str n)"
      using nat_str_not_Nil [of "n div 100"] by (subst s) (cases "nat_str (n div 100)"; simp)
    then show ?thesis
      unfolding Let_def by (simp add: two_places_def) (simp add: s)
  qed
qed

lemma toFixed2_exact:
  assumes "0 \<le> a" and "a < 2 ^ 52"
  shows "int_div100_toFixed2 a = two_places (nat a)"
proof -
  obtain p d where s: "scale a 1 = (p, d)" by (cases "scale a 1")
  define m where "m = round_even p 100"
  have n: "(200 * m + d) div (2 * d) = a"
  proof (cases "a = 0")
    case True
    with s have "p = 0" "d = 1" by (simp_all add: scale_zero)
    then show ?thesis using True by (simp add: m_def round_even_def)
  next
    case False
    with assms have pos: "0 < a" by simp
    from scale_result [OF pos s] have pd: "p = a * d" and big: "100 * 2 ^ 52 \<le> p"
      by simp_all
    have dpos: "0 < d"
    proof (rule ccontr)
      assume "\<not> 0 < d"
      then have "a * d \<le> 0" using pos by (simp add: mult_le_0_iff)
      with pd big show False by simp
    qed
    then have "a * d < 2 ^ 52 * d"
      using assms(2) by (intro mult_strict_right_mono)
    with pd big have d: "100 < d" by simp
    from round_even_near [of 100 p] have
      near: "2 * p - 100 \<le> 200 * m" "200 * m \<le> 2 * p + 100"
      by (simp_all add: m_def)
    define r where "r = 200 * m + d - 2 * d * a"
    have "200 * m + d = 2 * d * a + r"
      by (simp add: r_def)
    moreover have "0 \<le> r"
      using near d pd by (simp add: r_def algebra_simps)
    moreover have "r < 2 * d"
      using near d pd by (simp add: r_def algebra_simps)
    ultimately show ?thesis
      by (rule int_div_pos_eq)
  qed
  have "int_div100_toFixed2 a = toFixed2 (m, d)"
    using assms(1) by (simp add: int_div100_toFixed2_def double_div100_def s m_def)
  also have "\<dots> = two_places (nat a)"
    using pad_split [of "nat a"] by (simp add: toFixed2_def n Let_def)
  finally show ?thesis .
qed

text \<open>
  Claim C7. The amount is shown as a decimal with exactly two fraction digits, the
  amount in minor units divided by 100: for every payment whose \<^verbatim>\<open>amount\<close> is an integer
  \<open>0 \<le> a < 2 ^ 52\<close>, the text put after the dollar sign is the digits of \<open>a div 100\<close>, a
  point, and the two digits of \<open>a mod 100\<close>; 2999 is shown as \<^verbatim>\<open>$29.99\<close> and 0 as \<^verbatim>\<open>$0.00\<close>.
\<close>

theorem amount_shown_with_two_fraction_digits:
  assumes "0 \<le> a" and "a < 2 ^ 52" and "get_prop failedPayment ''amount'' = Inr (JNum a)"
  shows "amount_fixed w failedPayment =
           Inr (nat_str (nat a div 100) @ ''.''
                  @ [digit_char (nat a mod 100 div 10), digit_char (nat a mod 10)])"
  using assms toFixed2_exact [of a]
  by (simp add: amount_fixed_def bindE_def two_places_def)

theorem amount_shown_with_two_fraction_digits_witness:
  "amount_fixed offline (JObj [(''amount'', JNum 2999)]) = Inr ''29.99''
   \<and> amount_fixed offline (JObj [(''amount'', JNum 0)]) = Inr ''0.00''
   \<and> fallback_subject ''29.99'' ''Unknown Customer''
        = siren @ '' Payment Failed - $29.99 from Unknown Customer''
   \<and> fallback_subject ''0.00'' ''Unknown Customer''
        = siren @ '' Payment Failed - $0.00 from Unknown Customer''"
  using amount_shown_with_two_fraction_digits [of 2999 "JObj [(''amount'', JNum 2999)]" offline]
        amount_shown_with_two_fraction_digits [of 0 "JObj [(''amount'', JNum 0)]" offline]
  by (simp add: nat_str_numeral nat_str_zero digit_char_def fallback_subject_def)

section \<open>The mail message\<close>

lemma get_prop_field: "\<not> nullish v \<Longrightarrow> get_prop v k = Inr (field v k)"
  by (cases v) (simp_all add: field_def nullish_def)

lemma opt_prop_field: "opt_prop v k = Inr (field v k)"
  by (cases v) (simp_all add: opt_prop_def field_def nullish_def)

lemma or_else_env: "or_else (env x) (JStr d) = JStr (configured_or x d)"
  by (cases x) (simp_all add: or_else_def env_def configured_or_def)

lemma replace_newlines_Inr:
  "replace_newlines v = Inr h \<Longrightarrow>
     \<exists>b. v = JStr b \<and> h = JStr (concat (map (\<lambda>c. if c = CHR 0x0A then ''<br>'' else [c]) b))"
  by (cases v) simp_all

lemma mailOptions_fields:
  assumes "mailOptions w emailContent = Inr m"
  shows "field m ''from'' = JStr (configured_or (ALERT_EMAIL w) ''stripe-monitor@yourdomain.com'')
       \<and> field m ''to'' = JStr (configured_or (ALERT_EMAIL w) ''admin@yourdomain.com'')
       \<and> field m ''subject'' = field emailContent ''subject''
       \<and> field m ''text'' = field emailContent ''body''
       \<and> (\<exists>b. field emailContent ''body'' = JStr b
             \<and> field m ''html'' = JStr (concat (map (\<lambda>c. if c = CHR 0x0A then ''<br>'' else [c]) b)))"
proof -
  from assms obtain subject body html where
    s: "get_prop emailContent ''subject'' = Inr subject" and
    b: "get_prop emailContent ''body'' = Inr body" and
    h: "replace_newlines body = Inr html" and
    m: "m = JObj [(''from'', or_else (env (ALERT_EMAIL w)) (JStr ''stripe-monitor@yourdomain.com'')),
                  (''to'', or_else (env (ALERT_EMAIL w)) (JStr ''admin@yourdomain.com'')),
                  (''subject'', subject), (''text'', body), (''html'', html)]"
    by (auto simp: mailOptions_def bindE_def split: sum.splits)
  from replace_newlines_Inr [OF h] obtain t where
    t: "body = JStr t" "html = JStr (concat (map (\<lambda>c. if c = CHR 0x0A then ''<br>'' else [c]) t))"
    by blast
  have fs: "field emailContent ''subject'' = subject" and fb: "field emailContent ''body'' = body"
    using s b by (simp_all add: field_def)
  show ?thesis
    unfolding m fs fb by (simp add: field_def or_else_env t)
qed

lemma generateEmailContent_outbox: "outbox (snd (generateEmailContent w p st)) = outbox st"
  by (simp add: generateEmailContent_def addLog_outbox split: sum.splits)

lemma sendEmailAlert_outbox:
  "outbox (snd (sendEmailAlert w p st)) =
     outbox st @
       (case bindE (fst (generateEmailContent w p (st\<lparr>dispatched := dispatched st @ [p]\<rparr>))) (mailOptions w) of
          Inl e \<Rightarrow> []
        | Inr m \<Rightarrow> [m])"
  using generateEmailContent_outbox [of w p "st\<lparr>dispatched := dispatched st @ [p]\<rparr>"]
  by (auto simp: sendEmailAlert_def Let_def addLog_outbox split: prod.splits sum.splits)

text \<open>
  Claim C5, as the code has it. Every message handed to the mail transport takes its
  subject from the generated content's \<^verbatim>\<open>subject\<close>, its text from the content's \<^verbatim>\<open>body\<close>, and
  its HTML from that body with every newline replaced by \<^verbatim>\<open><br>\<close>. Sender and recipient are
  both \<^verbatim>\<open>ALERT_EMAIL\<close> when that variable is set to a non-empty string; otherwise the sender
  is \<^verbatim>\<open>stripe-monitor@yourdomain.com\<close> and the recipient \<^verbatim>\<open>admin@yourdomain.com\<close>.
\<close>

theorem dispatched_mail_fields:
  assumes "outbox (snd (sendEmailAlert w p st)) \<noteq> outbox st"
  shows "\<exists>emailContent m.
           fst (generateEmailContent w p (st\<lparr>dispatched := dispatched st @ [p]\<rparr>)) = Inr emailContent
         \<and> outbox (snd (sendEmailAlert w p st)) = outbox st @ [m]
         \<and> field m ''from'' = JStr (configured_or (ALERT_EMAIL w) ''stripe-monitor@yourdomain.com'')
         \<and> field m ''to'' = JStr (configured_or (ALERT_EMAIL w) ''admin@yourdomain.com'')
         \<and> field m ''subject'' = field emailContent ''subject''
         \<and> field m ''text'' = field emailContent ''body''
         \<and> (\<exists>b. field emailContent ''body'' = JStr b
               \<and> field m ''html'' = JStr (concat (map (\<lambda>c. if c = CHR 0x0A then ''<br>'' else [c]) b)))"
proof -
  let ?r = "fst (generateEmailContent w p (st\<lparr>dispatched := dispatched st @ [p]\<rparr>))"
  from assms obtain m where m: "bindE ?r (mailOptions w) = Inr m"
    by (cases "bindE ?r (mailOptions w)") (simp_all add: sendEmailAlert_outbox)
  then obtain emailContent where c: "?r = Inr emailContent" and o: "mailOptions w emailContent = Inr m"
    by (cases ?r) (simp_all add: bindE_def)
  have "outbox (snd (sendEmailAlert w p st)) = outbox st @ [m]"
    by (simp add: sendEmailAlert_outbox m)
  with c mailOptions_fields [OF o] show ?thesis
    by blast
qed



theorem dispatched_mail_fields_witness:
  \<open>outbox (snd (sendEmailAlert (online ''{"subject":"Payment failed","body":"Please review."}'')
                  testPayment init)) \<noteq> outbox init
   \<and> outbox (snd (sendEmailAlert (online ''{"subject":"Payment failed","body":"Please review."}'')
                  testPayment init))
       = [JObj [(''from'', JStr ''ops@example.com''),
                (''to'', JStr ''ops@example.com''),
                (''subject'', JStr ''Payment failed''),
                (''text'', JStr ''Please review.''),
                (''html'', JStr ''Please review.'')]]\<close>
proof -
  let ?w = \<open>online ''{"subject":"Payment failed","body":"Please review."}''\<close>
  have h: "outbox (snd (sendEmailAlert ?w testPayment init)) \<noteq> outbox init"
    by (simp add: sendEmailAlert_outbox content_eval number_eval world_eval testPayment_def init_def)
  from dispatched_mail_fields [OF h] obtain m where
    "outbox (snd (sendEmailAlert ?w testPayment init)) = outbox init @ [m]"
    by blast
  moreover have "outbox (snd (sendEmailAlert ?w testPayment init)) =
      [JObj [(''from'', JStr ''ops@example.com''),
                (''to'', JStr ''ops@example.com''),
                (''subject'', JStr ''Payment failed''),
                (''text'', JStr ''Please review.''),
                (''html'', JStr ''Please review.'')]]"
    by (simp add: sendEmailAlert_outbox content_eval number_eval world_eval testPayment_def init_def)
  ultimately show ?thesis using h by simp
qed

text \<open>
  The claim as stated, one address for both fields, fails when \<^verbatim>\<open>ALERT_EMAIL\<close> is not set: the
  alert for the test payment then goes from one built-in address to another.
\<close>

theorem unconfigured_mail_from_differs_from_to:
  "ALERT_EMAIL offline = None
   \<and> outbox (snd (sendEmailAlert offline testPayment init)) =
       [JObj [(''from'', JStr ''stripe-monitor@yourdomain.com''),
              (''to'', JStr ''admin@yourdomain.com''),
              (''subject'', JStr (siren @ '' Payment Failed - $29.99 from test@example.com'')),
              (''text'', JStr (join_lines
                 [''A payment has failed in your Stripe account.'',
                  [],
                  ''Details:'',
                  ''- Customer: Test Customer (test@example.com)'',
                  ''- Amount: $29.99 USD'',
                  ''- Failure Reason: Your card was declined.'',
                  ''- Failure Code: card_declined'',
                  ''- Payment Method: card'',
                  [],
                  ''Next Steps:'',
                  ''1. Review the failure reason above'',
                  ''2. Contact the customer if needed'',
                  ''3. Check your Stripe dashboard for more details'',
                  [],
                  ''This is an automated alert from your Stripe monitoring system.''])),
              (''html'', JStr (concat
                 [''A payment has failed in your Stripe account.<br><br>Details:<br>'',
                  ''- Customer: Test Customer (test@example.com)<br>'',
                  ''- Amount: $29.99 USD<br>'',
                  ''- Failure Reason: Your card was declined.<br>'',
                  ''- Failure Code: card_declined<br>'',
                  ''- Payment Method: card<br><br>Next Steps:<br>'',
                  ''1. Review the failure reason above<br>'',
                  ''2. Contact the customer if needed<br>'',
                  ''3. Check your Stripe dashboard for more details<br><br>'',
                  ''This is an automated alert from your Stripe monitoring system.'']))]]
   \<and> JStr ''stripe-monitor@yourdomain.com'' \<noteq> JStr ''admin@yourdomain.com''"
  by (simp add: sendEmailAlert_outbox content_eval number_eval world_eval testPayment_def init_def)

section \<open>The fallback content\<close>

lemma field_of_nullish: "nullish v \<Longrightarrow> field v k = JUndefined"
  by (cases v) (simp_all add: field_def nullish_def)

lemma customer_name_field:
  "\<not> nullish p \<Longrightarrow>
     customer_name p = to_string (or_else (field (field p ''customer'') ''name'') (JStr ''Unknown''))"
  by (simp add: customer_name_def interp_or_def bindE_def get_prop_field opt_prop_field)

lemma customer_email_field:
  "\<not> nullish p \<Longrightarrow>
     customer_email p d = to_string (or_else (field (field p ''customer'') ''email'') (JStr d))"
  by (simp add: customer_email_def interp_or_def bindE_def get_prop_field opt_prop_field)

lemma amount_fixed_field: "\<not> nullish p \<Longrightarrow> amount_fixed w p = div100_toFixed2 w (field p ''amount'')"
  by (simp add: amount_fixed_def bindE_def get_prop_field)

lemma currency_upper_field:
  "\<not> nullish p \<Longrightarrow>
     currency_upper p =
       bindE (toUpperCase_opt (field p ''currency'')) (\<lambda>v. to_string (or_else v (JStr ''USD'')))"
  by (simp add: currency_upper_def interp_or_def bindE_def get_prop_field)

lemma failure_code_field:
  "\<not> nullish p \<Longrightarrow> failure_code p = to_string (or_else (field p ''failure_code'') (JStr ''Unknown''))"
  by (simp add: failure_code_def interp_or_def bindE_def get_prop_field)

lemma failure_message_field:
  "\<not> nullish p \<Longrightarrow>
     failure_message p = to_string (or_else (field p ''failure_message'') (JStr ''No details provided''))"
  by (simp add: failure_message_def interp_or_def bindE_def get_prop_field)

lemma payment_method_field:
  "\<not> nullish p \<Longrightarrow>
     payment_method p =
       to_string (or_else (field (field p ''payment_method_details'') ''type'') (JStr ''Unknown''))"
  by (simp add: payment_method_def interp_or_def bindE_def get_prop_field opt_prop_field)

lemma or_else_nullish: "nullish v \<Longrightarrow> or_else v d = d"
  by (auto simp: or_else_def nullish_def)

lemma generateEmailContent_cases:
  "fallback w p = Inr content0 \<Longrightarrow>
     generateEmailContent w p st =
       (case generated w p of
          Inr content \<Rightarrow> (Inr content, st)
        | Inl err \<Rightarrow>
            (Inr content0,
             addLog w ''error'' ''Failed to generate email content with OpenAI'' (JStr (err_message err)) st))"
  by (simp add: generateEmailContent_def split: sum.splits)

text \<open>
  Claim C2, as the code has it. For a payment with no customer, no failure message, no
  failure code and no payment method details, whose amount and currency can be printed,
  the generator does not throw, and when text generation fails it returns the fallback
  content in which the customer name is \<^verbatim>\<open>Unknown\<close>, the customer email \<^verbatim>\<open>Not provided\<close> in the
  body and \<^verbatim>\<open>Unknown Customer\<close> in the subject, the failure code \<^verbatim>\<open>Unknown\<close>, the payment method
  \<^verbatim>\<open>Unknown\<close>, and the failure reason \<^verbatim>\<open>No details provided\<close>.
\<close>

theorem fallback_placeholders_for_missing_fields:
  assumes "\<not> nullish p"
    and "nullish (field p ''customer'')"
    and "nullish (field p ''failure_message'')"
    and "nullish (field p ''failure_code'')"
    and "nullish (field p ''payment_method_details'')"
    and "amount_fixed w p = Inr amount"
    and "currency_upper p = Inr currency"
  shows "generateEmailContent w p st =
           (case generated w p of
              Inr content \<Rightarrow> (Inr content, st)
            | Inl err \<Rightarrow>
                (Inr (JObj
                   [(''subject'', JStr (siren @ '' Payment Failed - $'' @ amount @ '' from Unknown Customer'')),
                    (''body'', JStr (join_lines
                       [''A payment has failed in your Stripe account.'',
                        [],
                        ''Details:'',
                        ''- Customer: Unknown (Not provided)'',
                        ''- Amount: $'' @ amount @ '' '' @ currency,
                        ''- Failure Reason: No details provided'',
                        ''- Failure Code: Unknown'',
                        ''- Payment Method: Unknown'',
                        [],
                        ''Next Steps:'',
                        ''1. Review the failure reason above'',
                        ''2. Contact the customer if needed'',
                        ''3. Check your Stripe dashboard for more details'',
                        [],
                        ''This is an automated alert from your Stripe monitoring system.'']))]),
                 addLog w ''error'' ''Failed to generate email content with OpenAI''
                   (JStr (err_message err)) st))"
proof -
  have n: "customer_name p = Inr ''Unknown''"
    using assms(1,2) by (simp add: customer_name_field field_of_nullish or_else_def)
  have e: "customer_email p d = Inr d" for d
    using assms(1,2) by (simp add: customer_email_field field_of_nullish or_else_def)
  have m: "failure_message p = Inr ''No details provided''"
    using assms(1,3) by (simp add: failure_message_field or_else_nullish)
  have c: "failure_code p = Inr ''Unknown''"
    using assms(1,4) by (simp add: failure_code_field or_else_nullish)
  have t: "payment_method p = Inr ''Unknown''"
    using assms(1,5) by (simp add: payment_method_field field_of_nullish or_else_def)
  have "fallback w p =
          Inr (JObj
                   [(''subject'', JStr (siren @ '' Payment Failed - $'' @ amount @ '' from Unknown Customer'')),
                    (''body'', JStr (join_lines
                       [''A payment has failed in your Stripe account.'',
                        [],
                        ''Details:'',
                        ''- Customer: Unknown (Not provided)'',
                        ''- Amount: $'' @ amount @ '' '' @ currency,
                        ''- Failure Reason: No details provided'',
                        ''- Failure Code: Unknown'',
                        ''- Payment Method: Unknown'',
                        [],
                        ''Next Steps:'',
                        ''1. Review the failure reason above'',
                        ''2. Contact the customer if needed'',
                        ''3. Check your Stripe dashboard for more details'',
                        [],
                        ''This is an automated alert from your Stripe monitoring system.'']))])"
    by (simp add: fallback_def bindE_def n e m c t assms(6,7) fallback_subject_def fallback_body_def)
  then show ?thesis
    by (rule generateEmailContent_cases)
qed


theorem fallback_placeholders_for_missing_fields_witness:
  "generateEmailContent offline (JObj [(''amount'', JNum 500)]) init =
     (Inr (JObj
        [(''subject'', JStr (siren @ '' Payment Failed - $5.00 from Unknown Customer'')),
         (''body'', JStr (join_lines
            [''A payment has failed in your Stripe account.'',
             [],
             ''Details:'',
             ''- Customer: Unknown (Not provided)'',
             ''- Amount: $5.00 USD'',
             ''- Failure Reason: No details provided'',
             ''- Failure Code: Unknown'',
             ''- Payment Method: Unknown'',
             [],
             ''Next Steps:'',
             ''1. Review the failure reason above'',
             ''2. Contact the customer if needed'',
             ''3. Check your Stripe dashboard for more details'',
             [],
             ''This is an automated alert from your Stripe monitoring system.'']))]),
      addLog offline ''error'' ''Failed to generate email content with OpenAI''
        (JStr ''Connection error.'') init)"
proof -
  let ?p = "JObj [(''amount'', JNum 500)]"
  have 1: "\<not> nullish ?p" "nullish (field ?p ''customer'')" "nullish (field ?p ''failure_message'')"
    "nullish (field ?p ''failure_code'')" "nullish (field ?p ''payment_method_details'')"
    by (simp_all add: nullish_def field_def)
  have 2: "amount_fixed offline ?p = Inr ''5.00''"
    by (simp add: amount_fixed_def bindE_def number_eval)
  have 3: "currency_upper ?p = Inr ''USD''"
    by (simp add: content_eval)
  have 4: "generated offline ?p = Inl (ServiceError ''Connection error.'')"
    by (simp add: content_eval number_eval world_eval)
  show ?thesis
    using fallback_placeholders_for_missing_fields [OF 1 2 3, of init] by (simp add: 4)
qed

text \<open>
  The claim as stated, \<^verbatim>\<open>Unknown\<close> or \<^verbatim>\<open>Not provided\<close> for each missing field, fails for the
  failure message, whose placeholder is a third literal.
\<close>

theorem missing_failure_message_is_no_details_provided:
  "nullish (field (JObj [(''amount'', JNum 500)]) ''failure_message'')
   \<and> failure_message (JObj [(''amount'', JNum 500)]) = Inr ''No details provided''
   \<and> ''No details provided'' \<notin> {''Unknown'', ''Not provided''}
   \<and> fallback offline (JObj [(''amount'', JNum 500)]) =
       Inr (JObj
        [(''subject'', JStr (siren @ '' Payment Failed - $5.00 from Unknown Customer'')),
         (''body'', JStr (join_lines
            [''A payment has failed in your Stripe account.'',
             [],
             ''Details:'',
             ''- Customer: Unknown (Not provided)'',
             ''- Amount: $5.00 USD'',
             ''- Failure Reason: No details provided'',
             ''- Failure Code: Unknown'',
             ''- Payment Method: Unknown'',
             [],
             ''Next Steps:'',
             ''1. Review the failure reason above'',
             ''2. Contact the customer if needed'',
             ''3. Check your Stripe dashboard for more details'',
             [],
             ''This is an automated alert from your Stripe monitoring system.'']))])"
  by (simp add: content_eval number_eval world_eval)

section \<open>The generator and its failures\<close>

lemma scalar_to_string: "scalar v \<Longrightarrow> \<exists>s. to_string v = Inr s"
  by (cases v) simp_all

lemma scalar_or_else: "scalar v \<Longrightarrow> scalar (or_else v (JStr d))"
  by (simp add: or_else_def)

lemma scalar_div100_toFixed2: "scalar v \<Longrightarrow> \<exists>s. div100_toFixed2 w v = Inr s"
  by (cases v) simp_all

lemma text_or_missing_toUpperCase:
  "text_or_missing v \<Longrightarrow> \<exists>u. toUpperCase_opt v = Inr u \<and> scalar u"
  by (cases v) simp_all

lemma shaped_texts:
  assumes "payment_shaped p"
  shows "\<exists>name email0 email amount currency code msg method.
           customer_name p = Inr name \<and> customer_email p ''Unknown Customer'' = Inr email0
         \<and> customer_email p ''Not provided'' = Inr email \<and> amount_fixed w p = Inr amount
         \<and> currency_upper p = Inr currency \<and> failure_code p = Inr code
         \<and> failure_message p = Inr msg \<and> payment_method p = Inr method"
proof -
  from assms have p: "\<not> nullish p" by (simp add: payment_shaped_def)
  have t: "scalar v \<Longrightarrow> \<exists>s. to_string (or_else v (JStr d)) = Inr s" for v d
    by (intro scalar_to_string scalar_or_else)
  from assms t obtain name where "customer_name p = Inr name"
    unfolding customer_name_field [OF p] payment_shaped_def by blast
  moreover from assms t obtain email0 where "customer_email p ''Unknown Customer'' = Inr email0"
    unfolding customer_email_field [OF p] payment_shaped_def by blast
  moreover from assms t obtain email where "customer_email p ''Not provided'' = Inr email"
    unfolding customer_email_field [OF p] payment_shaped_def by blast
  moreover from assms scalar_div100_toFixed2 obtain amount where "amount_fixed w p = Inr amount"
    unfolding amount_fixed_field [OF p] payment_shaped_def by blast
  moreover have "\<exists>currency. currency_upper p = Inr currency"
  proof -
    from assms have "text_or_missing (field p ''currency'')" by (simp add: payment_shaped_def)
    from text_or_missing_toUpperCase [OF this] obtain u where
      "toUpperCase_opt (field p ''currency'') = Inr u" "scalar u" by blast
    with t [of u] show ?thesis
      by (simp add: currency_upper_field [OF p] bindE_def)
  qed
  moreover from assms t obtain code where "failure_code p = Inr code"
    unfolding failure_code_field [OF p] payment_shaped_def by blast
  moreover from assms t obtain msg where "failure_message p = Inr msg"
    unfolding failure_message_field [OF p] payment_shaped_def by blast
  moreover from assms t obtain paid_by where "payment_method p = Inr paid_by"
    unfolding payment_method_field [OF p] payment_shaped_def by blast
  ultimately show ?thesis by blast
qed

text \<open>
  Claim C4, as the code has it. For every payment record of the expected shape and every
  behaviour of the text-generation service, \<^verbatim>\<open>generateEmailContent\<close> does not throw: when the
  call fails, or its reply cannot be read or parsed, it logs one error and returns the
  fallback, an object with a string \<^verbatim>\<open>subject\<close> and a string \<^verbatim>\<open>body\<close>; when the reply parses, it
  returns the parsed value as it is.
\<close>

theorem generateEmailContent_total_on_shaped_payments:
  assumes "payment_shaped p"
  shows "\<exists>pr subject body.
           prompt w p = Inr pr
         \<and> fallback w p = Inr (JObj [(''subject'', JStr subject), (''body'', JStr body)])
         \<and> generateEmailContent w p st =
             (case bindE (completions_create w pr) (parsed_content w) of
                Inr content \<Rightarrow> (Inr content, st)
              | Inl err \<Rightarrow>
                  (Inr (JObj [(''subject'', JStr subject), (''body'', JStr body)]),
                   addLog w ''error'' ''Failed to generate email content with OpenAI''
                     (JStr (err_message err)) st))"
proof -
  from shaped_texts [OF assms, of w] obtain name email0 email amount currency code msg paid_by where
    f: "customer_name p = Inr name" "customer_email p ''Unknown Customer'' = Inr email0"
       "customer_email p ''Not provided'' = Inr email" "amount_fixed w p = Inr amount"
       "currency_upper p = Inr currency" "failure_code p = Inr code"
       "failure_message p = Inr msg" "payment_method p = Inr paid_by"
    by blast
  have pr: "prompt w p = Inr (prompt_text name email amount currency code msg paid_by)"
    by (simp add: prompt_def bindE_def f)
  have fb: "fallback w p =
              Inr (JObj [(''subject'', JStr (fallback_subject amount email0)),
                         (''body'', JStr (fallback_body name email amount currency msg code paid_by))])"
    by (simp add: fallback_def bindE_def f)
  have g: "generated w p =
             bindE (completions_create w (prompt_text name email amount currency code msg paid_by))
               (parsed_content w)"
    by (simp add: generated_def pr bindE_def)
  from generateEmailContent_cases [OF fb, of st] pr fb show ?thesis
    unfolding g by blast
qed


theorem generateEmailContent_total_on_shaped_payments_witness:
  \<open>payment_shaped testPayment
   \<and> generateEmailContent offline testPayment init =
       (Inr (JObj
          [(''subject'', JStr (siren @ '' Payment Failed - $29.99 from test@example.com'')),
           (''body'', JStr (join_lines
              [''A payment has failed in your Stripe account.'',
               [],
               ''Details:'',
               ''- Customer: Test Customer (test@example.com)'',
               ''- Amount: $29.99 USD'',
               ''- Failure Reason: Your card was declined.'',
               ''- Failure Code: card_declined'',
               ''- Payment Method: card'',
               [],
               ''Next Steps:'',
               ''1. Review the failure reason above'',
               ''2. Contact the customer if needed'',
               ''3. Check your Stripe dashboard for more details'',
               [],
               ''This is an automated alert from your Stripe monitoring system.'']))]),
        addLog offline ''error'' ''Failed to generate email content with OpenAI''
          (JStr ''Connection error.'') init)
   \<and> generateEmailContent (online ''{"subject":"Payment failed","body":"Please review."}'')
         testPayment init =
       (Inr (JObj [(''subject'', JStr ''Payment failed''), (''body'', JStr ''Please review.'')]), init)\<close>
proof -
  let ?w = \<open>online ''{"subject":"Payment failed","body":"Please review."}''\<close>
  have s: "payment_shaped testPayment"
    by (simp add: payment_shaped_def testPayment_def field_def nullish_def)
  from generateEmailContent_total_on_shaped_payments [OF s, of offline init]
  obtain pr where "prompt offline testPayment = Inr pr"
    by blast
  have a: "generateEmailContent offline testPayment init =
       (Inr (JObj
          [(''subject'', JStr (siren @ '' Payment Failed - $29.99 from test@example.com'')),
           (''body'', JStr (join_lines
              [''A payment has failed in your Stripe account.'',
               [],
               ''Details:'',
               ''- Customer: Test Customer (test@example.com)'',
               ''- Amount: $29.99 USD'',
               ''- Failure Reason: Your card was declined.'',
               ''- Failure Code: card_declined'',
               ''- Payment Method: card'',
               [],
               ''Next Steps:'',
               ''1. Review the failure reason above'',
               ''2. Contact the customer if needed'',
               ''3. Check your Stripe dashboard for more details'',
               [],
               ''This is an automated alert from your Stripe monitoring system.'']))]),
        addLog offline ''error'' ''Failed to generate email content with OpenAI''
          (JStr ''Connection error.'') init)"
    by (simp add: content_eval number_eval world_eval testPayment_def)
  have b: "generateEmailContent ?w testPayment init =
       (Inr (JObj [(''subject'', JStr ''Payment failed''), (''body'', JStr ''Please review.'')]), init)"
    by (simp add: content_eval number_eval world_eval testPayment_def)
  from s a b show ?thesis
    by (intro conjI)
qed

text \<open>
  The claim as stated fails twice: a reply that parses is returned without a check, so the
  result need not have a \<^verbatim>\<open>body\<close>; and a currency that is not a string makes both templates
  throw, the second time outside the \<^verbatim>\<open>try\<close> block.
\<close>

theorem generateEmailContent_returns_unvalidated_or_throws:
  \<open>generateEmailContent (online ''{"subject":"Payment failed"}'') testPayment init =
     (Inr (JObj [(''subject'', JStr ''Payment failed'')]), init)
   \<and> \<not> is_alert_content (JObj [(''subject'', JStr ''Payment failed'')])
   \<and> fst (generateEmailContent offline (JObj [(''amount'', JNum 500), (''currency'', JNum 840)]) init) =
       Inl (TypeError ''failedPayment.currency?.toUpperCase is not a function'')\<close>
  by (simp add: content_eval number_eval world_eval testPayment_def is_alert_content_def)

section \<open>The webhook endpoint\<close>

lemma warnings_append: "warnings (xs @ ys) = warnings xs @ warnings ys"
  by (simp add: warnings_def)

lemma appended_journal: "journal st' = journal st @ es \<Longrightarrow> appended st st' = es"
  by (simp add: appended_def)

lemma generateEmailContent_journal:
  "\<exists>es. journal (snd (generateEmailContent w p st)) = journal st @ es \<and> warnings es = []"
  by (auto simp: generateEmailContent_def addLog_journal warnings_def split: sum.splits)

lemma sendEmailAlert_journal:
  "\<exists>es. journal (snd (sendEmailAlert w p st)) = journal st @ es \<and> warnings es = []"
proof -
  let ?st0 = "st\<lparr>dispatched := dispatched st @ [p]\<rparr>"
  obtain r st1 where g: "generateEmailContent w p ?st0 = (r, st1)"
    by (cases "generateEmailContent w p ?st0")
  from generateEmailContent_journal [of w p ?st0] g obtain es where
    es: "journal st1 = journal st @ es" "warnings es = []"
    by auto
  have "\<exists>lvl msg d.
          journal (snd (sendEmailAlert w p st)) =
            journal st1 @ [\<lparr>timestamp = toISOString w (ticks st1), level = lvl, message = msg, data = d\<rparr>]
        \<and> lvl \<noteq> ''warning''"
    by (auto simp: sendEmailAlert_def g Let_def addLog_journal split: sum.splits)
  then obtain e where "journal (snd (sendEmailAlert w p st)) = journal st @ (es @ [e])" "warnings [e] = []"
    using es by (auto simp: warnings_def)
  with es have "warnings (es @ [e]) = []"
    by (simp add: warnings_append)
  with \<open>journal (snd (sendEmailAlert w p st)) = journal st @ (es @ [e])\<close> show ?thesis
    by blast
qed

lemma webhook_parse_failure:
  "JSON_parse w raw = Inl err \<Longrightarrow> webhook w raw st = webhook_failed w err st"
  by (simp add: webhook_def)

lemma webhook_unfold:
  assumes "JSON_parse w raw = Inr event" and "get_prop event ''type'' = Inr t" and "to_string t = Inr s"
  shows "webhook w raw st =
     (if recognized t then
        (case bindE (get_prop event ''data'') (\<lambda>d. get_prop d ''object'') of
           Inl err \<Rightarrow> webhook_failed w err (addLog w ''info'' (''Received Stripe event: '' @ s) JUndefined st)
         | Inr paymentData \<Rightarrow>
             (case failure_summary paymentData of
                Inl err \<Rightarrow>
                  webhook_failed w err (addLog w ''info'' (''Received Stripe event: '' @ s) JUndefined st)
              | Inr summary \<Rightarrow>
                  (received,
                   snd (sendEmailAlert w paymentData
                          (addLog w ''warning'' ''Payment failure detected'' summary
                             (addLog w ''info'' (''Received Stripe event: '' @ s) JUndefined st))))))
      else (received, addLog w ''info'' (''Received Stripe event: '' @ s) JUndefined st))"
proof -
  let ?st1 = "addLog w ''info'' (''Received Stripe event: '' @ s) JUndefined st"
  have start:
    "bindE (get_prop event ''type'') (\<lambda>t. bindE (to_string t) (\<lambda>s. Inr (t, s))) = Inr (t, s)"
    using assms(2,3) by (simp add: bindE_def)
  show ?thesis
  proof (cases "recognized t")
    case False
    then show ?thesis
      by (simp add: webhook_def assms(1) start)
  next
    case True
    show ?thesis
    proof (cases "bindE (get_prop event ''data'') (\<lambda>d. get_prop d ''object'')")
      case (Inl err)
      with True show ?thesis
        by (simp add: webhook_def assms(1) start)
    next
      case (Inr paymentData)
      show ?thesis
      proof (cases "failure_summary paymentData")
        case (Inl err)
        with True Inr show ?thesis
          by (simp add: webhook_def assms(1) start)
      next
        case summary: (Inr summary)
        let ?st2 = "addLog w ''warning'' ''Payment failure detected'' summary ?st1"
        obtain sent st3 where "sendEmailAlert w paymentData ?st2 = (Inr sent, st3)"
          using sendEmailAlert_returns [of w paymentData ?st2]
          by (cases "sendEmailAlert w paymentData ?st2") auto
        with True Inr summary show ?thesis
          by (simp add: webhook_def assms(1) start)
      qed
    qed
  qed
qed


lemma get_prop_Inr: "get_prop v k = Inr x \<Longrightarrow> \<not> nullish v \<and> x = field v k"
  by (cases v) (auto simp: nullish_def field_def)

lemma get_prop_nullish: "nullish v \<Longrightarrow> \<exists>err. get_prop v k = Inl err"
  by (cases v) (auto simp: nullish_def)

lemma failure_summary_field:
  "\<not> nullish p \<Longrightarrow>
     failure_summary p =
       Inr (JObj [(''amount'', field p ''amount''), (''customer'', field p ''customer''),
                  (''failure_code'', field p ''failure_code'')])"
  by (simp add: failure_summary_def bindE_def get_prop_field)

lemma failure_summary_nullish: "nullish p \<Longrightarrow> \<exists>err. failure_summary p = Inl err"
  using get_prop_nullish [of p "''amount''"] by (auto simp: failure_summary_def bindE_def)

lemma webhook_failed_effect:
  "fst (webhook_failed w err s) = \<lparr>status = 400, body = Text (''Webhook Error: '' @ err_message err)\<rparr>"
  "dispatched (snd (webhook_failed w err s)) = dispatched s"
  "journal (snd (webhook_failed w err s)) =
     journal s @ [\<lparr>timestamp = toISOString w (ticks s), level = ''error'',
                    message = ''Webhook processing failed'', data = JStr (err_message err)\<rparr>]"
  by (simp_all add: webhook_failed_def addLog_dispatched addLog_journal)

lemma webhook_processable:
  assumes "JSON_parse w raw = Inr event" and "processable event"
  shows "\<exists>s. to_string (field event ''type'') = Inr s
           \<and> webhook w raw st =
               (if recognized (field event ''type'') then
                  (received,
                   snd (sendEmailAlert w (field (field event ''data'') ''object'')
                          (addLog w ''warning'' ''Payment failure detected''
                             (JObj [(''amount'', field (field (field event ''data'') ''object'') ''amount''),
                                    (''customer'', field (field (field event ''data'') ''object'') ''customer''),
                                    (''failure_code'',
                                     field (field (field event ''data'') ''object'') ''failure_code'')])
                             (addLog w ''info'' (''Received Stripe event: '' @ s) JUndefined st))))
                else (received, addLog w ''info'' (''Received Stripe event: '' @ s) JUndefined st))"
proof -
  from assms(2) obtain s where s: "bindE (get_prop event ''type'') to_string = Inr s"
    by (cases "bindE (get_prop event ''type'') to_string") (simp_all add: processable_def)
  then obtain t where t: "get_prop event ''type'' = Inr t" "to_string t = Inr s"
    by (cases "get_prop event ''type''") (simp_all add: bindE_def)
  from get_prop_Inr [OF t(1)] have ev: "\<not> nullish event" and tf: "t = field event ''type''"
    by simp_all
  show ?thesis
  proof (cases "recognized t")
    case False
    with webhook_unfold [OF assms(1) t, of st] t(2) show ?thesis
      by (simp add: tf)
  next
    case True
    with assms(2) s have d: "\<not> nullish (field event ''data'')"
      and o: "\<not> nullish (field (field event ''data'') ''object'')"
      by (simp_all add: processable_def tf)
    have "bindE (get_prop event ''data'') (\<lambda>d. get_prop d ''object'')
            = Inr (field (field event ''data'') ''object'')"
      by (simp add: bindE_def get_prop_field ev d)
    with webhook_unfold [OF assms(1) t, of st] True t(2) show ?thesis
      by (simp add: tf failure_summary_field [OF o])
  qed
qed

lemma webhook_unprocessable:
  assumes "JSON_parse w raw = Inr event" and "\<not> processable event"
  shows "\<exists>err s. webhook w raw st = webhook_failed w err s \<and> dispatched s = dispatched st
           \<and> warnings (appended st s) = []"
proof (cases "bindE (get_prop event ''type'') to_string")
  case (Inl err)
  then have "bindE (get_prop event ''type'') (\<lambda>t. bindE (to_string t) (\<lambda>s. Inr (t, s))) = Inl err"
    by (cases "get_prop event ''type''") (auto simp: bindE_def split: sum.splits)
  then have "webhook w raw st = webhook_failed w err st"
    by (simp add: webhook_def assms(1))
  then show ?thesis
    by (intro exI [of _ err] exI [of _ st]) (simp add: appended_def warnings_def)
next
  case (Inr s)
  then obtain t where t: "get_prop event ''type'' = Inr t" "to_string t = Inr s"
    by (cases "get_prop event ''type''") (simp_all add: bindE_def)
  from get_prop_Inr [OF t(1)] have ev: "\<not> nullish event" and tf: "t = field event ''type''"
    by simp_all
  let ?st1 = "addLog w ''info'' (''Received Stripe event: '' @ s) JUndefined st"
  from assms(2) Inr have r: "recognized t"
    and n: "nullish (field event ''data'') \<or> nullish (field (field event ''data'') ''object'')"
    by (auto simp: processable_def tf split: if_splits)
  have "\<exists>err. webhook w raw st = webhook_failed w err ?st1"
  proof (cases "nullish (field event ''data'')")
    case True
    from get_prop_nullish [OF True] obtain err where "get_prop (field event ''data'') ''object'' = Inl err"
      by blast
    then have "bindE (get_prop event ''data'') (\<lambda>d. get_prop d ''object'') = Inl err"
      by (simp add: bindE_def get_prop_field ev)
    with webhook_unfold [OF assms(1) t, of st] r
    have "webhook w raw st = webhook_failed w err ?st1"
      by simp
    then show ?thesis by blast
  next
    case False
    with n have o: "nullish (field (field event ''data'') ''object'')" by simp
    have "bindE (get_prop event ''data'') (\<lambda>d. get_prop d ''object'')
            = Inr (field (field event ''data'') ''object'')"
      by (simp add: bindE_def get_prop_field ev False)
    moreover from failure_summary_nullish [OF o] obtain err where
      "failure_summary (field (field event ''data'') ''object'') = Inl err"
      by blast
    ultimately have "webhook w raw st = webhook_failed w err ?st1"
      using webhook_unfold [OF assms(1) t, of st] r by simp
    then show ?thesis by blast
  qed
  then obtain err where "webhook w raw st = webhook_failed w err ?st1"
    by blast
  moreover have "dispatched ?st1 = dispatched st"
    by (simp add: addLog_dispatched)
  moreover have "warnings (appended st ?st1) = []"
    by (simp add: appended_def addLog_journal warnings_def)
  ultimately show ?thesis
    by blast
qed


lemma received_response: "received = \<lparr>status = 200, body = Json (JObj [(''received'', JBool True)])\<rparr>"
  by (simp add: received_def json_response_def)

lemmas handler_eval =
  webhook_def webhook_failed_def failure_summary_def sendEmailAlert_def addLog_def Let_def
  recognized_def received_def json_response_def init_def processable_def accepted_def

text \<open>
  Claim C1, as the code has it. \<^verbatim>\<open>POST /webhook\<close> answers with status 200 and
  \<^verbatim>\<open>{"received": true}\<close> exactly when the body parses as JSON and the event can be processed
  (its type can be read and printed and, for a recognized failure type, \<^verbatim>\<open>data.object\<close> is
  present and not \<^verbatim>\<open>null\<close>), whatever becomes of the alert. In every other case, a body that
  does not parse among them, it answers with status 400 and the text \<^verbatim>\<open>Webhook Error: \<close> followed
  by the error message, and no dispatch is attempted.
\<close>

theorem webhook_acknowledges_what_it_can_process:
  "(accepted w raw \<longrightarrow>
      fst (webhook w raw st) = \<lparr>status = 200, body = Json (JObj [(''received'', JBool True)])\<rparr>)
   \<and> (\<not> accepted w raw \<longrightarrow>
        (\<exists>err. fst (webhook w raw st) =
                 \<lparr>status = 400, body = Text (''Webhook Error: '' @ err_message err)\<rparr>)
        \<and> dispatched (snd (webhook w raw st)) = dispatched st)
   \<and> (\<forall>err. JSON_parse w raw = Inl err \<longrightarrow>
        \<not> accepted w raw
        \<and> fst (webhook w raw st) =
            \<lparr>status = 400, body = Text (''Webhook Error: '' @ err_message err)\<rparr>)"
proof (intro conjI impI allI)
  assume "accepted w raw"
  then obtain event where e: "JSON_parse w raw = Inr event" "processable event"
    by (cases "JSON_parse w raw") (simp_all add: accepted_def)
  from webhook_processable [OF e, of st]
  show "fst (webhook w raw st) = \<lparr>status = 200, body = Json (JObj [(''received'', JBool True)])\<rparr>"
    by (auto simp: received_response split: if_splits)
next
  assume n: "\<not> accepted w raw"
  have "\<exists>err s. webhook w raw st = webhook_failed w err s \<and> dispatched s = dispatched st"
  proof (cases "JSON_parse w raw")
    case (Inl err)
    then have "webhook w raw st = webhook_failed w err st"
      by (rule webhook_parse_failure)
    then show ?thesis by blast
  next
    case (Inr event)
    with n have "\<not> processable event" by (simp add: accepted_def)
    from webhook_unprocessable [OF Inr this, of st] show ?thesis by blast
  qed
  then obtain err s where f: "webhook w raw st = webhook_failed w err s" "dispatched s = dispatched st"
    by blast
  from f show "\<exists>err. fst (webhook w raw st) =
                  \<lparr>status = 400, body = Text (''Webhook Error: '' @ err_message err)\<rparr>"
    by (auto simp: webhook_failed_effect(1))
  from f show "dispatched (snd (webhook w raw st)) = dispatched st"
    by (simp add: webhook_failed_effect(2))
next
  fix err assume "JSON_parse w raw = Inl err"
  then show "\<not> accepted w raw" by (simp add: accepted_def)
next
  fix err assume "JSON_parse w raw = Inl err"
  then show "fst (webhook w raw st) = \<lparr>status = 400, body = Text (''Webhook Error: '' @ err_message err)\<rparr>"
    by (simp add: webhook_parse_failure webhook_failed_effect(1))
qed

theorem webhook_acknowledges_what_it_can_process_witness:
  \<open>accepted offline
      ''{"type":"payment_intent.payment_failed","data":{"object":{"amount":500,"currency":"usd"}}}''
   \<and> fst (webhook offline
        ''{"type":"payment_intent.payment_failed","data":{"object":{"amount":500,"currency":"usd"}}}''
        init) = \<lparr>status = 200, body = Json (JObj [(''received'', JBool True)])\<rparr>
   \<and> \<not> accepted offline ''{"type":"charge.failed"}''
   \<and> status (fst (webhook offline ''{"type":"charge.failed"}'' init)) = 400
   \<and> dispatched (snd (webhook offline ''{"type":"charge.failed"}'' init)) = dispatched init
   \<and> JSON_parse offline ''not json'' = Inl (SyntaxError ''Unexpected token'')
   \<and> fst (webhook offline ''not json'' init) =
       \<lparr>status = 400, body = Text ''Webhook Error: Unexpected token''\<rparr>\<close>
proof -
  have a: \<open>accepted offline
      ''{"type":"payment_intent.payment_failed","data":{"object":{"amount":500,"currency":"usd"}}}''\<close>
    by (simp add: accepted_def processable_def recognized_def field_def bindE_def nullish_def world_eval)
  have b: \<open>\<not> accepted offline ''{"type":"charge.failed"}''\<close>
    by (simp add: accepted_def processable_def recognized_def field_def bindE_def nullish_def world_eval)
  have c: "JSON_parse offline ''not json'' = Inl (SyntaxError ''Unexpected token'')"
    by (simp add: world_eval)
  show ?thesis
    using a b c
      webhook_acknowledges_what_it_can_process
        [of offline \<open>''{"type":"payment_intent.payment_failed","data":{"object":{"amount":500,"currency":"usd"}}}''\<close> init]
      webhook_acknowledges_what_it_can_process [of offline \<open>''{"type":"charge.failed"}''\<close> init]
      webhook_acknowledges_what_it_can_process [of offline "''not json''" init]
    by auto
qed

text \<open>
  The claim as stated, status 200 whenever the body parses, fails for the body \<^verbatim>\<open>null\<close>: it
  parses, and reading \<^verbatim>\<open>event.type\<close> throws.
\<close>

theorem webhook_rejects_a_body_that_parses:
  "JSON_parse offline ''null'' = Inr JNull
   \<and> fst (webhook offline ''null'' init) =
       \<lparr>status = 400,
        body = Text (''Webhook Error: Cannot read properties of null (reading ''
                       @ [CHR 0x27] @ ''type'' @ [CHR 0x27] @ '')'')\<rparr>"
  by (simp add: handler_eval content_eval world_eval)

text \<open>
  Claim C6, as the code has it. For every parsed event that can be processed: the response
  is 200 with \<^verbatim>\<open>{"received": true}\<close>; if its type is one of the three recognized failure
  names, the request pushes exactly one warning entry and makes exactly one dispatch
  attempt, with \<^verbatim>\<open>data.object\<close>; otherwise it pushes no warning entry and makes no dispatch
  attempt.
\<close>

theorem webhook_dispatches_recognized_failures:
  assumes "JSON_parse w raw = Inr event" and "processable event"
  shows "fst (webhook w raw st) = \<lparr>status = 200, body = Json (JObj [(''received'', JBool True)])\<rparr>
       \<and> (recognized (field event ''type'') \<longrightarrow>
            dispatched (snd (webhook w raw st)) = dispatched st @ [field (field event ''data'') ''object'']
            \<and> warnings (appended st (snd (webhook w raw st))) =
                [\<lparr>timestamp = toISOString w (Suc (ticks st)), level = ''warning'',
                  message = ''Payment failure detected'',
                  data = JObj
                    [(''amount'', field (field (field event ''data'') ''object'') ''amount''),
                     (''customer'', field (field (field event ''data'') ''object'') ''customer''),
                     (''failure_code'', field (field (field event ''data'') ''object'') ''failure_code'')]\<rparr>])
       \<and> (\<not> recognized (field event ''type'') \<longrightarrow>
            dispatched (snd (webhook w raw st)) = dispatched st
            \<and> warnings (appended st (snd (webhook w raw st))) = [])"
proof -
  let ?pd = "field (field event ''data'') ''object''"
  let ?summary = "JObj [(''amount'', field ?pd ''amount''), (''customer'', field ?pd ''customer''),
                        (''failure_code'', field ?pd ''failure_code'')]"
  from webhook_processable [OF assms, of st] obtain s where
    w: "webhook w raw st =
         (if recognized (field event ''type'') then
            (received,
             snd (sendEmailAlert w ?pd
                    (addLog w ''warning'' ''Payment failure detected'' ?summary
                       (addLog w ''info'' (''Received Stripe event: '' @ s) JUndefined st))))
          else (received, addLog w ''info'' (''Received Stripe event: '' @ s) JUndefined st))"
    by blast
  let ?st1 = "addLog w ''info'' (''Received Stripe event: '' @ s) JUndefined st"
  let ?st2 = "addLog w ''warning'' ''Payment failure detected'' ?summary ?st1"
  have 1: "fst (webhook w raw st) = \<lparr>status = 200, body = Json (JObj [(''received'', JBool True)])\<rparr>"
    by (simp add: w received_response)
  have 2: "dispatched (snd (webhook w raw st)) = dispatched st @ [?pd]
         \<and> warnings (appended st (snd (webhook w raw st))) =
                [\<lparr>timestamp = toISOString w (Suc (ticks st)), level = ''warning'',
                  message = ''Payment failure detected'', data = ?summary\<rparr>]"
    if r: "recognized (field event ''type'')"
  proof -
    have st': "snd (webhook w raw st) = snd (sendEmailAlert w ?pd ?st2)"
      using r by (simp add: w)
    from sendEmailAlert_journal [of w ?pd ?st2] obtain es where
      es: "journal (snd (sendEmailAlert w ?pd ?st2)) = journal ?st2 @ es" "warnings es = []"
      by blast
    have j2: "journal ?st2 =
          journal st @
            [\<lparr>timestamp = toISOString w (ticks st), level = ''info'',
               message = ''Received Stripe event: '' @ s, data = JNull\<rparr>,
             \<lparr>timestamp = toISOString w (Suc (ticks st)), level = ''warning'',
               message = ''Payment failure detected'', data = ?summary\<rparr>]"
      by (simp add: addLog_journal addLog_ticks)
    have "appended st (snd (webhook w raw st)) =
            [\<lparr>timestamp = toISOString w (ticks st), level = ''info'',
               message = ''Received Stripe event: '' @ s, data = JNull\<rparr>,
             \<lparr>timestamp = toISOString w (Suc (ticks st)), level = ''warning'',
               message = ''Payment failure detected'', data = ?summary\<rparr>] @ es"
      by (rule appended_journal) (simp only: st' es(1) j2 append_assoc)
    then have "warnings (appended st (snd (webhook w raw st))) =
                [\<lparr>timestamp = toISOString w (Suc (ticks st)), level = ''warning'',
                  message = ''Payment failure detected'', data = ?summary\<rparr>]"
      using es(2) by (simp add: warnings_append) (simp add: warnings_def)
    moreover have "dispatched (snd (webhook w raw st)) = dispatched st @ [?pd]"
      by (simp add: st' sendEmailAlert_dispatched addLog_dispatched)
    ultimately show ?thesis by simp
  qed
  have 3: "dispatched (snd (webhook w raw st)) = dispatched st
         \<and> warnings (appended st (snd (webhook w raw st))) = []"
    if "\<not> recognized (field event ''type'')"
    using that by (simp add: w addLog_dispatched appended_def addLog_journal warnings_def)
  from 1 2 3 show ?thesis by blast
qed


theorem webhook_dispatches_recognized_failures_witness:
  \<open>JSON_parse offline
      ''{"type":"payment_intent.payment_failed","data":{"object":{"amount":500,"currency":"usd"}}}''
     = Inr (JObj [(''type'', JStr ''payment_intent.payment_failed''),
                  (''data'', JObj [(''object'', JObj [(''amount'', JNum 500), (''currency'', JStr ''usd'')])])])
   \<and> processable
        (JObj [(''type'', JStr ''payment_intent.payment_failed''),
               (''data'', JObj [(''object'', JObj [(''amount'', JNum 500), (''currency'', JStr ''usd'')])])])
   \<and> fst (webhook offline
        ''{"type":"payment_intent.payment_failed","data":{"object":{"amount":500,"currency":"usd"}}}''
        init) = \<lparr>status = 200, body = Json (JObj [(''received'', JBool True)])\<rparr>
   \<and> dispatched (snd (webhook offline
        ''{"type":"payment_intent.payment_failed","data":{"object":{"amount":500,"currency":"usd"}}}''
        init)) = [JObj [(''amount'', JNum 500), (''currency'', JStr ''usd'')]]
   \<and> warnings (appended init (snd (webhook offline
        ''{"type":"payment_intent.payment_failed","data":{"object":{"amount":500,"currency":"usd"}}}''
        init))) =
       [\<lparr>timestamp = ''2026-01-01T00:00:00.000Z'', level = ''warning'',
         message = ''Payment failure detected'',
         data = JObj [(''amount'', JNum 500), (''customer'', JUndefined), (''failure_code'', JUndefined)]\<rparr>]
   \<and> processable (JObj [(''type'', JStr ''customer.created'')])
   \<and> fst (webhook offline ''{"type":"customer.created"}'' init) =
       \<lparr>status = 200, body = Json (JObj [(''received'', JBool True)])\<rparr>
   \<and> dispatched (snd (webhook offline ''{"type":"customer.created"}'' init)) = []
   \<and> warnings (appended init (snd (webhook offline ''{"type":"customer.created"}'' init))) = []\<close>
proof -
  let ?e1 = "JObj [(''type'', JStr ''payment_intent.payment_failed''),
                  (''data'', JObj [(''object'', JObj [(''amount'', JNum 500), (''currency'', JStr ''usd'')])])]"
  let ?e2 = "JObj [(''type'', JStr ''customer.created'')]"
  have p1: \<open>JSON_parse offline
      ''{"type":"payment_intent.payment_failed","data":{"object":{"amount":500,"currency":"usd"}}}''
     = Inr ?e1\<close>
    by (simp add: world_eval)
  have p2: \<open>JSON_parse offline ''{"type":"customer.created"}'' = Inr ?e2\<close>
    by (simp add: world_eval)
  have q1: "processable ?e1" and q2: "processable ?e2"
    by (simp_all add: processable_def recognized_def field_def bindE_def nullish_def)
  show ?thesis
    using p1 q1 q2 webhook_dispatches_recognized_failures [OF p1 q1, of init]
      webhook_dispatches_recognized_failures [OF p2 q2, of init]
    by (simp add: field_def recognized_def init_def offline_def)
qed

text \<open>
  The claim as stated, for every parsed event, fails for a recognized type without
  \<^verbatim>\<open>data\<close>: no warning, no dispatch attempt, status 400.
\<close>

theorem webhook_drops_recognized_event_without_data:
  \<open>JSON_parse offline ''{"type":"charge.failed"}'' = Inr (JObj [(''type'', JStr ''charge.failed'')])
   \<and> recognized (field (JObj [(''type'', JStr ''charge.failed'')]) ''type'')
   \<and> status (fst (webhook offline ''{"type":"charge.failed"}'' init)) = 400
   \<and> dispatched (snd (webhook offline ''{"type":"charge.failed"}'' init)) = []
   \<and> warnings (appended init (snd (webhook offline ''{"type":"charge.failed"}'' init))) = []\<close>
  by (simp add: handler_eval content_eval world_eval appended_def warnings_def)

end
